theory Spec2Isabelle
  imports Complex_Main "HOL-Library.Word"
begin

section \<open>Sequencer effects (source/blender/sequencer/intern/effects.cc)\<close>

text \<open>
  A shallow embedding of the per-pixel compositing effects of the sequencer and of the
  effect handle table.

  \<^item> A byte buffer (\<open>uchar *\<close>) is a list of 8-bit words, four consecutive entries per
    pixel (R, G, B, A); a float buffer (\<open>float *\<close>) is a list of reals. Float channels and
    the blend factor \<open>fac\<close> are modelled by real numbers: rounding, infinities and NaN of
    single precision floats are outside the model.
  \<^item> C \<open>int\<close> values are modelled by \<open>int\<close>; the model coincides with 32-bit arithmetic
    as long as no intermediate result overflows and every conversion of a float to an
    integer type is in range, which is the case for blend factors of moderate size (in
    particular for every factor in \<open>[0, 1]\<close>). Out of range the C++ code is undefined; the
    model then computes with unbounded integers and keeps the low eight bits on a store
    to \<open>uchar\<close>. A right shift of an \<open>int\<close> is arithmetic (\<open>drop_bit\<close> on \<open>int\<close>).
  \<^item> The input buffers and the output buffer are distinct objects (no aliasing); every
    effect returns the updated output buffer.
\<close>

subsection \<open>Conversions and pixel access\<close>

text \<open>Conversion \<open>int(f)\<close> of a float to a C integer truncates towards zero.\<close>

definition float_to_int :: "real \<Rightarrow> int" where
  "float_to_int r = (if 0 \<le> r then \<lfloor>r\<rfloor> else \<lceil>r\<rceil>)"

text \<open>Storing an \<open>int\<close> into an \<open>uchar\<close> keeps the low eight bits.\<close>

definition uchar_of_int :: "int \<Rightarrow> 8 word" where
  "uchar_of_int i = word_of_int i"

text \<open>Storing a float into an \<open>uchar\<close> truncates, then keeps the low eight bits.\<close>

definition uchar_of_float :: "real \<Rightarrow> 8 word" where
  "uchar_of_float r = uchar_of_int (float_to_int r)"

type_synonym 'a px = "'a \<times> 'a \<times> 'a \<times> 'a"

text \<open>The four channels \<open>p[0..3]\<close> of the pixel at pointer offset \<open>k\<close>.\<close>

definition get_px :: "'a list \<Rightarrow> nat \<Rightarrow> 'a px" where
  "get_px rect k = (rect ! k, rect ! (k + 1), rect ! (k + 2), rect ! (k + 3))"

definition put_px :: "'a list \<Rightarrow> nat \<Rightarrow> 'a px \<Rightarrow> 'a list" where
  "put_px rt k p = (case p of (c0, c1, c2, c3) \<Rightarrow>
     rt[k := c0, k + 1 := c1, k + 2 := c2, k + 3 := c3])"

definition px_alpha :: "'a px \<Rightarrow> 'a" where
  "px_alpha p = (case p of (c0, c1, c2, c3) \<Rightarrow> c3)"

text \<open>
  Every slice function runs the same loop nest
  \<^verbatim>\<open>for (i = 0; i < y; i++) for (j = 0; j < x; j++) { body; rt1 += 4; rt2 += 4; rt += 4; }\<close>
  The pointers advance together, so the state carries their common offset \<open>k\<close> from the
  start of the buffers next to the data \<open>s\<close> the body writes.
\<close>

definition for_each_pixel :: "int \<Rightarrow> int \<Rightarrow> (nat \<Rightarrow> 's \<Rightarrow> 's) \<Rightarrow> 's \<Rightarrow> 's" where
  "for_each_pixel x y body s =
     fst (foldl (\<lambda>st i. foldl (\<lambda>(s', k) j. (body k s', k + 4)) st [0..<nat x])
            (s, 0) [0..<nat y])"

subsection \<open>Cross effect\<close>

definition do_cross_effect_byte ::
  "real \<Rightarrow> int \<Rightarrow> int \<Rightarrow> 8 word list \<Rightarrow> 8 word list \<Rightarrow> 8 word list \<Rightarrow> 8 word list" where
  "do_cross_effect_byte fac x y rect1 rect2 out =
     (let temp_fac = float_to_int (256 * fac);
          temp_mfac = 256 - temp_fac
      in for_each_pixel x y (\<lambda>k rt.
           rt[k := uchar_of_int (drop_bit 8 (temp_mfac * uint (rect1 ! k) + temp_fac * uint (rect2 ! k))),
              k + 1 := uchar_of_int (drop_bit 8 (temp_mfac * uint (rect1 ! (k + 1)) + temp_fac * uint (rect2 ! (k + 1)))),
              k + 2 := uchar_of_int (drop_bit 8 (temp_mfac * uint (rect1 ! (k + 2)) + temp_fac * uint (rect2 ! (k + 2)))),
              k + 3 := uchar_of_int (drop_bit 8 (temp_mfac * uint (rect1 ! (k + 3)) + temp_fac * uint (rect2 ! (k + 3))))])
           out)"

definition do_cross_effect_float ::
  "real \<Rightarrow> int \<Rightarrow> int \<Rightarrow> real list \<Rightarrow> real list \<Rightarrow> real list \<Rightarrow> real list" where
  "do_cross_effect_float fac x y rect1 rect2 out =
     (let mfac = 1 - fac
      in for_each_pixel x y (\<lambda>k rt.
           rt[k := mfac * rect1 ! k + fac * rect2 ! k,
              k + 1 := mfac * rect1 ! (k + 1) + fac * rect2 ! (k + 1),
              k + 2 := mfac * rect1 ! (k + 2) + fac * rect2 ! (k + 2),
              k + 3 := mfac * rect1 ! (k + 3) + fac * rect2 ! (k + 3)])
           out)"

subsection \<open>Early-out classification\<close>

datatype early_out = EARLY_NO_INPUT | EARLY_DO_EFFECT | EARLY_USE_INPUT_1 | EARLY_USE_INPUT_2

text \<open>The \<open>Sequence *\<close> parameter of \<open>early_out_fade\<close> is unused and left out.\<close>

definition early_out_fade :: "real \<Rightarrow> early_out" where
  "early_out_fade fac =
     (if fac = 0 then EARLY_USE_INPUT_1
      else if fac = 1 then EARLY_USE_INPUT_2
      else EARLY_DO_EFFECT)"

record GaussianBlurVars =
  size_x :: real
  size_y :: real

text \<open>\<open>early_out_gaussian_blur\<close> reads \<open>seq->effectdata\<close> as \<open>GaussianBlurVars\<close>.\<close>

definition early_out_gaussian_blur :: "GaussianBlurVars \<Rightarrow> real \<Rightarrow> early_out" where
  "early_out_gaussian_blur data fac =
     (if size_x data = 0 \<and> size_y data = 0 then EARLY_USE_INPUT_1 else EARLY_DO_EFFECT)"

subsection \<open>Add, subtract and multiply effects\<close>

text \<open>
  Modelled from the spec: \<open>min_ii\<close>, \<open>max_ii\<close> and \<open>max_ff\<close>, the minimum and maximum
  helpers of the math library, whose source is not part of the sequencer files.
\<close>

definition min_ii :: "int \<Rightarrow> int \<Rightarrow> int" where
  "min_ii a b = (if a < b then a else b)"

definition max_ii :: "int \<Rightarrow> int \<Rightarrow> int" where
  "max_ii a b = (if b < a then a else b)"

definition max_ff :: "real \<Rightarrow> real \<Rightarrow> real" where
  "max_ff a b = (if a > b then a else b)"

definition do_add_effect_byte ::
  "real \<Rightarrow> int \<Rightarrow> int \<Rightarrow> 8 word list \<Rightarrow> 8 word list \<Rightarrow> 8 word list \<Rightarrow> 8 word list" where
  "do_add_effect_byte fac x y rect1 rect2 out =
     (let temp_fac = float_to_int (256 * fac)
      in for_each_pixel x y (\<lambda>k rt.
           let temp_fac2 = temp_fac * uint (rect2 ! (k + 3))
           in rt[k := uchar_of_int (min_ii (uint (rect1 ! k) + drop_bit 16 (temp_fac2 * uint (rect2 ! k))) 255),
                 k + 1 := uchar_of_int (min_ii (uint (rect1 ! (k + 1)) + drop_bit 16 (temp_fac2 * uint (rect2 ! (k + 1)))) 255),
                 k + 2 := uchar_of_int (min_ii (uint (rect1 ! (k + 2)) + drop_bit 16 (temp_fac2 * uint (rect2 ! (k + 2)))) 255),
                 k + 3 := rect1 ! (k + 3)])
           out)"

definition do_add_effect_float ::
  "real \<Rightarrow> int \<Rightarrow> int \<Rightarrow> real list \<Rightarrow> real list \<Rightarrow> real list \<Rightarrow> real list" where
  "do_add_effect_float fac x y rect1 rect2 out =
     for_each_pixel x y (\<lambda>k rt.
       let temp_fac = (1 - (rect1 ! (k + 3) * (1 - fac))) * rect2 ! (k + 3)
       in rt[k := rect1 ! k + temp_fac * rect2 ! k,
             k + 1 := rect1 ! (k + 1) + temp_fac * rect2 ! (k + 1),
             k + 2 := rect1 ! (k + 2) + temp_fac * rect2 ! (k + 2),
             k + 3 := rect1 ! (k + 3)])
       out"

definition do_sub_effect_byte ::
  "real \<Rightarrow> int \<Rightarrow> int \<Rightarrow> 8 word list \<Rightarrow> 8 word list \<Rightarrow> 8 word list \<Rightarrow> 8 word list" where
  "do_sub_effect_byte fac x y rect1 rect2 out =
     (let temp_fac = float_to_int (256 * fac)
      in for_each_pixel x y (\<lambda>k rt.
           let temp_fac2 = temp_fac * uint (rect2 ! (k + 3))
           in rt[k := uchar_of_int (max_ii (uint (rect1 ! k) - drop_bit 16 (temp_fac2 * uint (rect2 ! k))) 0),
                 k + 1 := uchar_of_int (max_ii (uint (rect1 ! (k + 1)) - drop_bit 16 (temp_fac2 * uint (rect2 ! (k + 1)))) 0),
                 k + 2 := uchar_of_int (max_ii (uint (rect1 ! (k + 2)) - drop_bit 16 (temp_fac2 * uint (rect2 ! (k + 2)))) 0),
                 k + 3 := rect1 ! (k + 3)])
           out)"

definition do_sub_effect_float ::
  "real \<Rightarrow> int \<Rightarrow> int \<Rightarrow> real list \<Rightarrow> real list \<Rightarrow> real list \<Rightarrow> real list" where
  "do_sub_effect_float fac x y rect1 rect2 out =
     (let mfac = 1 - fac
      in for_each_pixel x y (\<lambda>k rt.
           let temp_fac = (1 - (rect1 ! (k + 3) * mfac)) * rect2 ! (k + 3)
           in rt[k := max_ff (rect1 ! k - temp_fac * rect2 ! k) 0,
                 k + 1 := max_ff (rect1 ! (k + 1) - temp_fac * rect2 ! (k + 1)) 0,
                 k + 2 := max_ff (rect1 ! (k + 2) - temp_fac * rect2 ! (k + 2)) 0,
                 k + 3 := rect1 ! (k + 3)])
           out)"

definition do_mul_effect_byte ::
  "real \<Rightarrow> int \<Rightarrow> int \<Rightarrow> 8 word list \<Rightarrow> 8 word list \<Rightarrow> 8 word list \<Rightarrow> 8 word list" where
  "do_mul_effect_byte fac x y rect1 rect2 out =
     (let temp_fac = float_to_int (256 * fac)
      in for_each_pixel x y (\<lambda>k rt.
           rt[k := uchar_of_int (uint (rect1 ! k) + drop_bit 16 (temp_fac * uint (rect1 ! k) * (uint (rect2 ! k) - 255))),
              k + 1 := uchar_of_int (uint (rect1 ! (k + 1)) + drop_bit 16 (temp_fac * uint (rect1 ! (k + 1)) * (uint (rect2 ! (k + 1)) - 255))),
              k + 2 := uchar_of_int (uint (rect1 ! (k + 2)) + drop_bit 16 (temp_fac * uint (rect1 ! (k + 2)) * (uint (rect2 ! (k + 2)) - 255))),
              k + 3 := uchar_of_int (uint (rect1 ! (k + 3)) + drop_bit 16 (temp_fac * uint (rect1 ! (k + 3)) * (uint (rect2 ! (k + 3)) - 255)))])
           out)"

definition do_mul_effect_float ::
  "real \<Rightarrow> int \<Rightarrow> int \<Rightarrow> real list \<Rightarrow> real list \<Rightarrow> real list \<Rightarrow> real list" where
  "do_mul_effect_float fac x y rect1 rect2 out =
     for_each_pixel x y (\<lambda>k rt.
       rt[k := rect1 ! k + fac * rect1 ! k * (rect2 ! k - 1),
          k + 1 := rect1 ! (k + 1) + fac * rect1 ! (k + 1) * (rect2 ! (k + 1) - 1),
          k + 2 := rect1 ! (k + 2) + fac * rect1 ! (k + 2) * (rect2 ! (k + 2) - 1),
          k + 3 := rect1 ! (k + 3) + fac * rect1 ! (k + 3) * (rect2 ! (k + 3) - 1)])
       out"

subsection \<open>Alpha over effect\<close>

text \<open>
  The byte path decodes both pixels with \<open>straight_uchar_to_premul_float\<close> and encodes the
  blend with \<open>premul_float_to_straight_uchar\<close>. Both helpers belong to the math library,
  whose source is not part of the sequencer files, and are parameters of the model. The
  assignment through \<open>uint *\<close> copies the four bytes of a pixel.
\<close>

definition do_alphaover_effect_byte ::
  "(8 word px \<Rightarrow> real px) \<Rightarrow> (real px \<Rightarrow> 8 word px) \<Rightarrow>
   real \<Rightarrow> int \<Rightarrow> int \<Rightarrow> 8 word list \<Rightarrow> 8 word list \<Rightarrow> 8 word list \<Rightarrow> 8 word list" where
  "do_alphaover_effect_byte straight_uchar_to_premul_float premul_float_to_straight_uchar
       fac x y rect1 rect2 out =
     for_each_pixel x y (\<lambda>k rt.
       case straight_uchar_to_premul_float (get_px rect1 k) of (rt1_0, rt1_1, rt1_2, rt1_3) \<Rightarrow>
       case straight_uchar_to_premul_float (get_px rect2 k) of (rt2_0, rt2_1, rt2_2, rt2_3) \<Rightarrow>
         let mfac = 1 - fac * rt1_3
         in if fac \<le> 0 then put_px rt k (get_px rect2 k)
            else if mfac \<le> 0 then put_px rt k (get_px rect1 k)
            else put_px rt k (premul_float_to_straight_uchar
                   (fac * rt1_0 + mfac * rt2_0,
                    fac * rt1_1 + mfac * rt2_1,
                    fac * rt1_2 + mfac * rt2_2,
                    fac * rt1_3 + mfac * rt2_3)))
       out"

text \<open>The float path works on the stored channels; \<open>memcpy\<close> copies one pixel.\<close>

definition do_alphaover_effect_float ::
  "real \<Rightarrow> int \<Rightarrow> int \<Rightarrow> real list \<Rightarrow> real list \<Rightarrow> real list \<Rightarrow> real list" where
  "do_alphaover_effect_float fac x y rect1 rect2 out =
     for_each_pixel x y (\<lambda>k rt.
       let mfac = 1 - (fac * rect1 ! (k + 3))
       in if fac \<le> 0 then put_px rt k (get_px rect2 k)
          else if mfac \<le> 0 then put_px rt k (get_px rect1 k)
          else rt[k := fac * rect1 ! k + mfac * rect2 ! k,
                  k + 1 := fac * rect1 ! (k + 1) + mfac * rect2 ! (k + 1),
                  k + 2 := fac * rect1 ! (k + 2) + mfac * rect2 ! (k + 2),
                  k + 3 := fac * rect1 ! (k + 3) + mfac * rect2 ! (k + 3)])
       out"

text \<open>
  The alpha-over formula as the specification words it, for one pixel and given the
  decoding to premultiplied floats and the encoding back: \<open>mfac = 1 - fac * alpha1\<close> on the
  decoded input 1; input 2 verbatim if \<open>fac <= 0\<close>; input 1 verbatim if \<open>mfac <= 0\<close>;
  otherwise the blend \<open>fac * in1 + mfac * in2\<close> of the four decoded channels, encoded.
\<close>

definition alphaover_formula ::
  "('a px \<Rightarrow> real px) \<Rightarrow> (real px \<Rightarrow> 'a px) \<Rightarrow> real \<Rightarrow> 'a px \<Rightarrow> 'a px \<Rightarrow> 'a px" where
  "alphaover_formula decode encode fac in1 in2 =
     (case decode in1 of (p1_0, p1_1, p1_2, p1_3) \<Rightarrow>
      case decode in2 of (p2_0, p2_1, p2_2, p2_3) \<Rightarrow>
        let mfac = 1 - fac * p1_3
        in if fac \<le> 0 then in2
           else if mfac \<le> 0 then in1
           else encode (fac * p1_0 + mfac * p2_0,
                        fac * p1_1 + mfac * p2_1,
                        fac * p1_2 + mfac * p2_2,
                        fac * p1_3 + mfac * p2_3))"

text \<open>
  The conversions of a float pixel between straight and premultiplied alpha, in the words
  of the specification: premultiplied colour is straight colour scaled by alpha.
\<close>

definition spec_straight_to_premul :: "real px \<Rightarrow> real px" where
  "spec_straight_to_premul p = (case p of (r, g, b, a) \<Rightarrow> (r * a, g * a, b * a, a))"

definition spec_premul_to_straight :: "real px \<Rightarrow> real px" where
  "spec_premul_to_straight p =
     (case p of (r, g, b, a) \<Rightarrow> if a = 0 then (r, g, b, a) else (r / a, g / a, b / a, a))"

subsection \<open>Blend mode effects\<close>

text \<open>
  \<open>apply_blend_function_byte\<close> and \<open>apply_blend_function_float\<close> write to the second input
  buffer as well as to the output, so both are threaded through the loop and returned.
  The blend function is the function pointer argument; it reads the two source pixels and
  writes the destination pixel.
\<close>

definition apply_blend_function_byte ::
  "real \<Rightarrow> int \<Rightarrow> int \<Rightarrow> 8 word list \<Rightarrow> 8 word list \<Rightarrow> 8 word list \<Rightarrow>
   (8 word px \<Rightarrow> 8 word px \<Rightarrow> 8 word px) \<Rightarrow> 8 word list \<times> 8 word list" where
  "apply_blend_function_byte fac x y rect1 rect2 out blend_function =
     for_each_pixel x y (\<lambda>k (rt2, rt).
       let achannel = uint (rt2 ! (k + 3));
           rt2 = rt2[k + 3 := uchar_of_float (real_of_int achannel * fac)];
           rt = put_px rt k (blend_function (get_px rect1 k) (get_px rt2 k));
           rt2 = rt2[k + 3 := uchar_of_int achannel];
           rt = rt[k + 3 := rect1 ! (k + 3)]
       in (rt2, rt))
       (rect2, out)"

definition apply_blend_function_float ::
  "real \<Rightarrow> int \<Rightarrow> int \<Rightarrow> real list \<Rightarrow> real list \<Rightarrow> real list \<Rightarrow>
   (real px \<Rightarrow> real px \<Rightarrow> real px) \<Rightarrow> real list \<times> real list" where
  "apply_blend_function_float fac x y rect1 rect2 out blend_function =
     for_each_pixel x y (\<lambda>k (rt2, rt).
       let achannel = rt2 ! (k + 3);
           rt2 = rt2[k + 3 := achannel * fac];
           rt = put_px rt k (blend_function (get_px rect1 k) (get_px rt2 k));
           rt2 = rt2[k + 3 := achannel];
           rt = rt[k + 3 := rect1 ! (k + 3)]
       in (rt2, rt))
       (rect2, out)"

text \<open>The pixel of input 2 as the blend function sees it: alpha scaled by \<open>fac\<close>.\<close>

definition prescaled_byte :: "real \<Rightarrow> 8 word px \<Rightarrow> 8 word px" where
  "prescaled_byte fac p =
     (case p of (c0, c1, c2, c3) \<Rightarrow> (c0, c1, c2, uchar_of_float (real_of_int (uint c3) * fac)))"

definition prescaled_float :: "real \<Rightarrow> real px \<Rightarrow> real px" where
  "prescaled_float fac p = (case p of (c0, c1, c2, c3) \<Rightarrow> (c0, c1, c2, c3 * fac))"

definition with_alpha :: "'a px \<Rightarrow> 'a \<Rightarrow> 'a px" where
  "with_alpha p a = (case p of (c0, c1, c2, c3) \<Rightarrow> (c0, c1, c2, a))"

subsection \<open>Speed effect: the frame map\<close>

text \<open>
  Modelled from the spec: the \<open>CLAMP(a, b, c)\<close> macro of the utility header, which is not
  part of the sequencer files. It clamps the variable \<open>a\<close> to the range from \<open>b\<close> to
  \<open>c\<close>: a value below \<open>b\<close> becomes \<open>b\<close>, otherwise a value above \<open>c\<close> becomes \<open>c\<close>.
\<close>

definition CLAMP :: "real \<Rightarrow> real \<Rightarrow> real \<Rightarrow> real" where
  "CLAMP a b c = (if a < b then b else if a > c then c else a)"

text \<open>
  What \<open>seq_effect_speed_rebuild_map\<close> reads from the scene and the strip, and the one
  field it writes:
  \<^item> \<open>left_handle\<close>, \<open>right_handle\<close>: \<open>SEQ_time_left_handle_frame_get\<close> and
    \<open>SEQ_time_right_handle_frame_get\<close> of the effect strip;
  \<^item> \<open>seq1_length\<close>: \<open>None\<close> when \<open>seq->seq1\<close> is null, otherwise
    \<open>SEQ_time_strip_length_get(scene, seq->seq1)\<close>;
  \<^item> \<open>speed_factor_curve\<close>: the result of the curve lookup, \<open>None\<close> for a null pointer,
    otherwise the function computed by \<open>evaluate_fcurve\<close>;
  \<^item> \<open>frameMap\<close>: the table owned by the effect data, \<open>None\<close> for a null pointer.
\<close>

record speed_strip =
  left_handle :: int
  right_handle :: int
  seq1_length :: "int option"
  speed_factor_curve :: "(real \<Rightarrow> real) option"
  frameMap :: "real list option"

text \<open>
  The loop \<open>for (frame_index = 1; frame_index < effect_strip_length; frame_index++)\<close>
  with the running sum \<open>target_frame\<close> and the table as its state.
\<close>

definition speed_map_loop ::
  "(real \<Rightarrow> real) \<Rightarrow> int \<Rightarrow> int \<Rightarrow> nat \<Rightarrow> real \<times> real list \<Rightarrow> real \<times> real list" where
  "speed_map_loop fcu left target_frame_max effect_strip_length st =
     foldl (\<lambda>(target_frame, fm) frame_index.
              let target_frame = target_frame + fcu (real_of_int (left + int frame_index));
                  target_frame = CLAMP target_frame 0 (real_of_int target_frame_max)
              in (target_frame, fm[frame_index := target_frame]))
           st [1..<effect_strip_length]"

text \<open>
  The freshly allocated table is modelled as a list of zeros: the function writes every
  entry before it returns.
\<close>

definition seq_effect_speed_rebuild_map :: "speed_strip \<Rightarrow> speed_strip" where
  "seq_effect_speed_rebuild_map seq =
     (let effect_strip_length = right_handle seq - left_handle seq
      in case seq1_length seq of
           None \<Rightarrow> seq
         | Some target_frame_max \<Rightarrow>
             if effect_strip_length < 1 then seq
             else case speed_factor_curve seq of
                    None \<Rightarrow> seq
                  | Some fcu \<Rightarrow>
                      let fm = (replicate (nat effect_strip_length) 0)[0 := 0]
                      in seq\<lparr>frameMap := Some (snd (speed_map_loop fcu (left_handle seq)
                               target_frame_max (nat effect_strip_length) (0, fm)))\<rparr>)"

subsection \<open>Output buffer allocation\<close>

text \<open>
  The fields of \<open>ImBuf\<close> the effects use (\<open>ibuf_x\<close> and \<open>ibuf_y\<close> are its \<open>x\<close> and \<open>y\<close>).
  A buffer pointer is \<open>None\<close> when null. Image buffers live in a store indexed by address,
  an \<open>ImBuf *\<close> is an optional address.
\<close>

record ImBuf =
  ibuf_x :: int
  ibuf_y :: int
  byte_buffer :: "8 word list option"
  float_buffer :: "real list option"
  float_colorspace :: "string option"
  metadata :: "string list"

datatype ib_flag = IB_rect | IB_rectfloat

text \<open>
  Modelled from the spec: the buffer allocator \<open>allocate(width, height, format) -> buffer\<close>
  (\<open>IMB_allocImBuf\<close> of the image buffer library, which is not part of the sequencer files)
  returns a buffer of the given size in the requested representation only. The \<open>planes\<close>
  argument, always 32, is left out; a failed allocation is not modelled.
\<close>

definition IMB_allocImBuf :: "int \<Rightarrow> int \<Rightarrow> ib_flag \<Rightarrow> ImBuf" where
  "IMB_allocImBuf w h flag =
     \<lparr>ibuf_x = w, ibuf_y = h,
      byte_buffer = (case flag of IB_rect \<Rightarrow> Some (replicate (4 * nat w * nat h) 0) | IB_rectfloat \<Rightarrow> None),
      float_buffer = (case flag of IB_rect \<Rightarrow> None | IB_rectfloat \<Rightarrow> Some (replicate (4 * nat w * nat h) 0)),
      float_colorspace = None,
      metadata = []\<rparr>"

record SeqRenderData =
  rectx :: int
  recty :: int
  sequencer_colorspace_name :: string

type_synonym imbuf_store = "nat \<Rightarrow> ImBuf"

text \<open>\<open>ibuf && ibuf->float_buffer.data\<close> and \<open>ibuf && !ibuf->float_buffer.data\<close>.\<close>

definition has_float :: "imbuf_store \<Rightarrow> nat option \<Rightarrow> bool" where
  "has_float st ibuf = (case ibuf of None \<Rightarrow> False | Some a \<Rightarrow> float_buffer (st a) \<noteq> None)"

definition lacks_float :: "imbuf_store \<Rightarrow> nat option \<Rightarrow> bool" where
  "lacks_float st ibuf = (case ibuf of None \<Rightarrow> False | Some a \<Rightarrow> float_buffer (st a) = None)"

definition lacks_byte :: "imbuf_store \<Rightarrow> nat option \<Rightarrow> bool" where
  "lacks_byte st ibuf = (case ibuf of None \<Rightarrow> False | Some a \<Rightarrow> byte_buffer (st a) = None)"

text \<open>
  The conversions of an input in place (\<open>seq_imbuf_to_sequencer_space\<close> and
  \<open>IMB_rect_from_float\<close>, defined in other files) are parameters \<open>to_float\<close> and \<open>to_byte\<close>
  of the model. Assigning the float colorspace sets the name on the output, and
  \<open>IMB_metadata_copy\<close> forwards the metadata of input 1. \<open>prepare_effect_imbufs\<close> returns the new output buffer and the store with the
  converted inputs.
\<close>

definition convert_if :: "bool \<Rightarrow> (ImBuf \<Rightarrow> ImBuf) \<Rightarrow> imbuf_store \<Rightarrow> nat option \<Rightarrow> imbuf_store" where
  "convert_if c f st ibuf =
     (case ibuf of None \<Rightarrow> st | Some a \<Rightarrow> if c then st(a := f (st a)) else st)"

definition prepare_effect_imbufs ::
  "(ImBuf \<Rightarrow> ImBuf) \<Rightarrow> (ImBuf \<Rightarrow> ImBuf) \<Rightarrow> SeqRenderData \<Rightarrow> imbuf_store \<Rightarrow>
   nat option \<Rightarrow> nat option \<Rightarrow> nat option \<Rightarrow> ImBuf \<times> imbuf_store" where
  "prepare_effect_imbufs to_float to_byte context st ibuf1 ibuf2 ibuf3 =
     (let w = rectx context;
          h = recty context;
          out = (if ibuf1 = None \<and> ibuf2 = None \<and> ibuf3 = None then IMB_allocImBuf w h IB_rect
                 else if has_float st ibuf1 \<or> has_float st ibuf2 \<or> has_float st ibuf3
                      then IMB_allocImBuf w h IB_rectfloat
                 else IMB_allocImBuf w h IB_rect);
          (out, st) =
            (if float_buffer out \<noteq> None then
               let st = convert_if (lacks_float st ibuf1) to_float st ibuf1;
                   st = convert_if (lacks_float st ibuf2) to_float st ibuf2;
                   st = convert_if (lacks_float st ibuf3) to_float st ibuf3
               in (out\<lparr>float_colorspace := Some (sequencer_colorspace_name context)\<rparr>, st)
             else
               let st = convert_if (lacks_byte st ibuf1) to_byte st ibuf1;
                   st = convert_if (lacks_byte st ibuf2) to_byte st ibuf2;
                   st = convert_if (lacks_byte st ibuf3) to_byte st ibuf3
               in (out, st));
          out = (case ibuf1 of
                   None \<Rightarrow> out
                 | Some a \<Rightarrow> if ibuf1 = ibuf2 \<and> ibuf2 = ibuf3
                             then out\<lparr>metadata := metadata (st a)\<rparr> else out)
      in (out, st))"

subsection \<open>Effect handles\<close>

text \<open>
  The effect types named by the case labels of \<open>get_sequence_effect_impl\<close>;
  \<open>SEQ_TYPE_OTHER\<close> stands for every other value of the \<open>int\<close> argument. The numeric
  values of the constants are declared in a header outside the sequencer files and play
  no role.
\<close>

datatype seq_type =
    SEQ_TYPE_CROSS | SEQ_TYPE_GAMCROSS | SEQ_TYPE_ADD | SEQ_TYPE_SUB | SEQ_TYPE_MUL
  | SEQ_TYPE_SCREEN | SEQ_TYPE_OVERLAY | SEQ_TYPE_COLOR_BURN | SEQ_TYPE_LINEAR_BURN
  | SEQ_TYPE_DARKEN | SEQ_TYPE_LIGHTEN | SEQ_TYPE_DODGE | SEQ_TYPE_SOFT_LIGHT
  | SEQ_TYPE_HARD_LIGHT | SEQ_TYPE_PIN_LIGHT | SEQ_TYPE_LIN_LIGHT | SEQ_TYPE_VIVID_LIGHT
  | SEQ_TYPE_BLEND_COLOR | SEQ_TYPE_HUE | SEQ_TYPE_SATURATION | SEQ_TYPE_VALUE
  | SEQ_TYPE_DIFFERENCE | SEQ_TYPE_EXCLUSION | SEQ_TYPE_COLORMIX | SEQ_TYPE_ALPHAOVER
  | SEQ_TYPE_OVERDROP | SEQ_TYPE_ALPHAUNDER | SEQ_TYPE_WIPE | SEQ_TYPE_GLOW
  | SEQ_TYPE_TRANSFORM | SEQ_TYPE_SPEED | SEQ_TYPE_COLOR | SEQ_TYPE_MULTICAM
  | SEQ_TYPE_ADJUSTMENT | SEQ_TYPE_GAUSSIAN_BLUR | SEQ_TYPE_TEXT | SEQ_TYPE_OTHER

text \<open>
  A function pointer of the handle is the name of the function it points to (written with
  a capital initial); a pointer that may be null is optional.
\<close>

datatype init_fn =
    Init_noop | Init_colormix_effect | Init_alpha_over_or_under | Init_wipe_effect
  | Init_glow_effect | Init_transform_effect | Init_speed_effect | Init_solid_color
  | Init_gaussian_blur_effect | Init_text_effect

datatype num_inputs_fn =
    Num_inputs_default | Num_inputs_wipe | Num_inputs_glow | Num_inputs_transform
  | Num_inputs_speed | Num_inputs_color | Num_inputs_multicam | Num_inputs_adjustment
  | Num_inputs_gaussian_blur | Num_inputs_text

datatype load_fn = Load_noop | Load_speed_effect | Load_text_effect

datatype free_fn =
    Free_noop | Free_effect_default | Free_wipe_effect | Free_glow_effect
  | Free_transform_effect | Free_speed_effect | Free_solid_color
  | Free_gaussian_blur_effect | Free_text_effect

datatype copy_fn =
    Copy_effect_default | Copy_wipe_effect | Copy_glow_effect | Copy_transform_effect
  | Copy_speed_effect | Copy_solid_color | Copy_gaussian_blur_effect | Copy_text_effect

datatype early_out_fn =
    Early_out_noop | Early_out_fade | Early_out_mul_input2 | Early_out_mul_input1
  | Early_out_speed | Early_out_color | Early_out_multicam | Early_out_adjustment
  | Early_out_gaussian_blur | Early_out_text

datatype get_default_fac_fn = Get_default_fac_noop | Get_default_fac_fade

datatype execute_fn =
    Do_wipe_effect | Do_glow_effect | Do_speed_effect | Do_solid_color | Do_multicam
  | Do_adjustment | Do_gaussian_blur_effect | Do_text_effect

datatype init_execution_fn = Init_execution | Gammacross_init_execution

datatype execute_slice_fn =
    Do_cross_effect | Do_gammacross_effect | Do_add_effect | Do_sub_effect | Do_mul_effect
  | Do_blend_mode_effect | Do_colormix_effect | Do_alphaover_effect | Do_overdrop_effect
  | Do_alphaunder_effect | Do_transform_effect

record SeqEffectHandle =
  multithreaded :: bool
  supports_mask :: bool
  init :: init_fn
  num_inputs :: num_inputs_fn
  load :: load_fn
  free :: free_fn
  early_out :: early_out_fn
  get_default_fac :: get_default_fac_fn
  execute :: "execute_fn option"
  init_execution :: "init_execution_fn option"
  execute_slice :: "execute_slice_fn option"
  copy :: "copy_fn option"

text \<open>The values returned by the \<open>num_inputs_*\<close> functions.\<close>

fun call_num_inputs :: "num_inputs_fn \<Rightarrow> int" where
  "call_num_inputs Num_inputs_default = 2"
| "call_num_inputs Num_inputs_wipe = 2"
| "call_num_inputs Num_inputs_glow = 1"
| "call_num_inputs Num_inputs_transform = 1"
| "call_num_inputs Num_inputs_speed = 1"
| "call_num_inputs Num_inputs_color = 0"
| "call_num_inputs Num_inputs_multicam = 0"
| "call_num_inputs Num_inputs_adjustment = 0"
| "call_num_inputs Num_inputs_gaussian_blur = 1"
| "call_num_inputs Num_inputs_text = 0"

text \<open>The assignments to \<open>rval\<close> ahead of the \<open>switch\<close>.\<close>

definition handle_defaults :: SeqEffectHandle where
  "handle_defaults =
     \<lparr>multithreaded = False, supports_mask = False, init = Init_noop,
      num_inputs = Num_inputs_default, load = Load_noop, free = Free_noop,
      early_out = Early_out_noop, get_default_fac = Get_default_fac_noop,
      execute = None, init_execution = Some Init_execution, execute_slice = None,
      copy = None\<rparr>"

fun get_sequence_effect_impl :: "seq_type \<Rightarrow> SeqEffectHandle" where
  "get_sequence_effect_impl SEQ_TYPE_CROSS =
     handle_defaults\<lparr>multithreaded := True, execute_slice := Some Do_cross_effect,
       early_out := Early_out_fade, get_default_fac := Get_default_fac_fade\<rparr>"
| "get_sequence_effect_impl SEQ_TYPE_GAMCROSS =
     handle_defaults\<lparr>multithreaded := True, early_out := Early_out_fade,
       get_default_fac := Get_default_fac_fade,
       init_execution := Some Gammacross_init_execution,
       execute_slice := Some Do_gammacross_effect\<rparr>"
| "get_sequence_effect_impl SEQ_TYPE_ADD =
     handle_defaults\<lparr>multithreaded := True, execute_slice := Some Do_add_effect,
       early_out := Early_out_mul_input2\<rparr>"
| "get_sequence_effect_impl SEQ_TYPE_SUB =
     handle_defaults\<lparr>multithreaded := True, execute_slice := Some Do_sub_effect,
       early_out := Early_out_mul_input2\<rparr>"
| "get_sequence_effect_impl SEQ_TYPE_MUL =
     handle_defaults\<lparr>multithreaded := True, execute_slice := Some Do_mul_effect,
       early_out := Early_out_mul_input2\<rparr>"
| "get_sequence_effect_impl SEQ_TYPE_SCREEN =
     handle_defaults\<lparr>multithreaded := True, execute_slice := Some Do_blend_mode_effect,
       early_out := Early_out_mul_input2\<rparr>"
| "get_sequence_effect_impl SEQ_TYPE_OVERLAY =
     handle_defaults\<lparr>multithreaded := True, execute_slice := Some Do_blend_mode_effect,
       early_out := Early_out_mul_input2\<rparr>"
| "get_sequence_effect_impl SEQ_TYPE_COLOR_BURN =
     handle_defaults\<lparr>multithreaded := True, execute_slice := Some Do_blend_mode_effect,
       early_out := Early_out_mul_input2\<rparr>"
| "get_sequence_effect_impl SEQ_TYPE_LINEAR_BURN =
     handle_defaults\<lparr>multithreaded := True, execute_slice := Some Do_blend_mode_effect,
       early_out := Early_out_mul_input2\<rparr>"
| "get_sequence_effect_impl SEQ_TYPE_DARKEN =
     handle_defaults\<lparr>multithreaded := True, execute_slice := Some Do_blend_mode_effect,
       early_out := Early_out_mul_input2\<rparr>"
| "get_sequence_effect_impl SEQ_TYPE_LIGHTEN =
     handle_defaults\<lparr>multithreaded := True, execute_slice := Some Do_blend_mode_effect,
       early_out := Early_out_mul_input2\<rparr>"
| "get_sequence_effect_impl SEQ_TYPE_DODGE =
     handle_defaults\<lparr>multithreaded := True, execute_slice := Some Do_blend_mode_effect,
       early_out := Early_out_mul_input2\<rparr>"
| "get_sequence_effect_impl SEQ_TYPE_SOFT_LIGHT =
     handle_defaults\<lparr>multithreaded := True, execute_slice := Some Do_blend_mode_effect,
       early_out := Early_out_mul_input2\<rparr>"
| "get_sequence_effect_impl SEQ_TYPE_HARD_LIGHT =
     handle_defaults\<lparr>multithreaded := True, execute_slice := Some Do_blend_mode_effect,
       early_out := Early_out_mul_input2\<rparr>"
| "get_sequence_effect_impl SEQ_TYPE_PIN_LIGHT =
     handle_defaults\<lparr>multithreaded := True, execute_slice := Some Do_blend_mode_effect,
       early_out := Early_out_mul_input2\<rparr>"
| "get_sequence_effect_impl SEQ_TYPE_LIN_LIGHT =
     handle_defaults\<lparr>multithreaded := True, execute_slice := Some Do_blend_mode_effect,
       early_out := Early_out_mul_input2\<rparr>"
| "get_sequence_effect_impl SEQ_TYPE_VIVID_LIGHT =
     handle_defaults\<lparr>multithreaded := True, execute_slice := Some Do_blend_mode_effect,
       early_out := Early_out_mul_input2\<rparr>"
| "get_sequence_effect_impl SEQ_TYPE_BLEND_COLOR =
     handle_defaults\<lparr>multithreaded := True, execute_slice := Some Do_blend_mode_effect,
       early_out := Early_out_mul_input2\<rparr>"
| "get_sequence_effect_impl SEQ_TYPE_HUE =
     handle_defaults\<lparr>multithreaded := True, execute_slice := Some Do_blend_mode_effect,
       early_out := Early_out_mul_input2\<rparr>"
| "get_sequence_effect_impl SEQ_TYPE_SATURATION =
     handle_defaults\<lparr>multithreaded := True, execute_slice := Some Do_blend_mode_effect,
       early_out := Early_out_mul_input2\<rparr>"
| "get_sequence_effect_impl SEQ_TYPE_VALUE =
     handle_defaults\<lparr>multithreaded := True, execute_slice := Some Do_blend_mode_effect,
       early_out := Early_out_mul_input2\<rparr>"
| "get_sequence_effect_impl SEQ_TYPE_DIFFERENCE =
     handle_defaults\<lparr>multithreaded := True, execute_slice := Some Do_blend_mode_effect,
       early_out := Early_out_mul_input2\<rparr>"
| "get_sequence_effect_impl SEQ_TYPE_EXCLUSION =
     handle_defaults\<lparr>multithreaded := True, execute_slice := Some Do_blend_mode_effect,
       early_out := Early_out_mul_input2\<rparr>"
| "get_sequence_effect_impl SEQ_TYPE_COLORMIX =
     handle_defaults\<lparr>multithreaded := True, init := Init_colormix_effect,
       free := Free_effect_default, copy := Some Copy_effect_default,
       execute_slice := Some Do_colormix_effect, early_out := Early_out_mul_input2\<rparr>"
| "get_sequence_effect_impl SEQ_TYPE_ALPHAOVER =
     handle_defaults\<lparr>multithreaded := True, init := Init_alpha_over_or_under,
       execute_slice := Some Do_alphaover_effect, early_out := Early_out_mul_input1\<rparr>"
| "get_sequence_effect_impl SEQ_TYPE_OVERDROP =
     handle_defaults\<lparr>multithreaded := True, execute_slice := Some Do_overdrop_effect\<rparr>"
| "get_sequence_effect_impl SEQ_TYPE_ALPHAUNDER =
     handle_defaults\<lparr>multithreaded := True, init := Init_alpha_over_or_under,
       execute_slice := Some Do_alphaunder_effect\<rparr>"
| "get_sequence_effect_impl SEQ_TYPE_WIPE =
     handle_defaults\<lparr>init := Init_wipe_effect, num_inputs := Num_inputs_wipe,
       free := Free_wipe_effect, copy := Some Copy_wipe_effect, early_out := Early_out_fade,
       get_default_fac := Get_default_fac_fade, execute := Some Do_wipe_effect\<rparr>"
| "get_sequence_effect_impl SEQ_TYPE_GLOW =
     handle_defaults\<lparr>init := Init_glow_effect, num_inputs := Num_inputs_glow,
       free := Free_glow_effect, copy := Some Copy_glow_effect,
       execute := Some Do_glow_effect\<rparr>"
| "get_sequence_effect_impl SEQ_TYPE_TRANSFORM =
     handle_defaults\<lparr>multithreaded := True, init := Init_transform_effect,
       num_inputs := Num_inputs_transform, free := Free_transform_effect,
       copy := Some Copy_transform_effect, execute_slice := Some Do_transform_effect\<rparr>"
| "get_sequence_effect_impl SEQ_TYPE_SPEED =
     handle_defaults\<lparr>init := Init_speed_effect, num_inputs := Num_inputs_speed,
       load := Load_speed_effect, free := Free_speed_effect,
       copy := Some Copy_speed_effect, execute := Some Do_speed_effect,
       early_out := Early_out_speed\<rparr>"
| "get_sequence_effect_impl SEQ_TYPE_COLOR =
     handle_defaults\<lparr>init := Init_solid_color, num_inputs := Num_inputs_color,
       early_out := Early_out_color, free := Free_solid_color,
       copy := Some Copy_solid_color, execute := Some Do_solid_color\<rparr>"
| "get_sequence_effect_impl SEQ_TYPE_MULTICAM =
     handle_defaults\<lparr>num_inputs := Num_inputs_multicam, early_out := Early_out_multicam,
       execute := Some Do_multicam\<rparr>"
| "get_sequence_effect_impl SEQ_TYPE_ADJUSTMENT =
     handle_defaults\<lparr>supports_mask := True, num_inputs := Num_inputs_adjustment,
       early_out := Early_out_adjustment, execute := Some Do_adjustment\<rparr>"
| "get_sequence_effect_impl SEQ_TYPE_GAUSSIAN_BLUR =
     handle_defaults\<lparr>init := Init_gaussian_blur_effect,
       num_inputs := Num_inputs_gaussian_blur, free := Free_gaussian_blur_effect,
       copy := Some Copy_gaussian_blur_effect, early_out := Early_out_gaussian_blur,
       execute := Some Do_gaussian_blur_effect\<rparr>"
| "get_sequence_effect_impl SEQ_TYPE_TEXT =
     handle_defaults\<lparr>num_inputs := Num_inputs_text, init := Init_text_effect,
       free := Free_text_effect, load := Load_text_effect, copy := Some Copy_text_effect,
       early_out := Early_out_text, execute := Some Do_text_effect\<rparr>"
| "get_sequence_effect_impl SEQ_TYPE_OTHER = handle_defaults"

definition SEQ_effect_get_num_inputs :: "seq_type \<Rightarrow> int" where
  "SEQ_effect_get_num_inputs seq_type =
     (let rval = get_sequence_effect_impl seq_type;
          count = call_num_inputs (num_inputs rval)
      in if execute rval \<noteq> None \<or> (execute_slice rval \<noteq> None \<and> init_execution rval \<noteq> None)
         then count else 0)"

subsection \<open>The compositing call\<close>

text \<open>
  Modelled from the spec: the compositing call that drives one effect (the strip renderer,
  which is not part of the sequencer files). It evaluates the early-out classification
  once, before dispatch, to avoid buffer allocation and copying. The outcomes "use input 1
  verbatim" and "use input 2 verbatim" return that input as it is, with no buffer
  allocated; "no additional input needed" runs the effect without inputs; "run full
  algorithm" runs the effect on the inputs, which returns a newly allocated output
  buffer. The render state holds the image buffers and the number of buffers allocated
  so far; \<open>execute_effect\<close> is the \<open>execute\<close> (or sliced execution) operation of the effect
  handle and may change both.
\<close>

record render_state =
  buffers :: imbuf_store
  allocations :: nat

definition compositing_call ::
  "(nat option \<Rightarrow> nat option \<Rightarrow> nat option \<Rightarrow> render_state \<Rightarrow> nat option \<times> render_state) \<Rightarrow>
   early_out \<Rightarrow> nat option \<Rightarrow> nat option \<Rightarrow> nat option \<Rightarrow> render_state \<Rightarrow>
   nat option \<times> render_state" where
  "compositing_call execute_effect classification ibuf1 ibuf2 ibuf3 st =
     (case classification of
        EARLY_USE_INPUT_1 \<Rightarrow> (ibuf1, st)
      | EARLY_USE_INPUT_2 \<Rightarrow> (ibuf2, st)
      | EARLY_NO_INPUT \<Rightarrow> execute_effect None None None st
      | EARLY_DO_EFFECT \<Rightarrow> execute_effect ibuf1 ibuf2 ibuf3 st)"

text \<open>The effect types grouped by the number of inputs the specification gives them.\<close>

definition no_input_effects :: "seq_type list" where
  "no_input_effects = [SEQ_TYPE_COLOR, SEQ_TYPE_MULTICAM, SEQ_TYPE_ADJUSTMENT, SEQ_TYPE_TEXT]"

definition single_input_effects :: "seq_type list" where
  "single_input_effects =
     [SEQ_TYPE_TRANSFORM, SEQ_TYPE_GLOW, SEQ_TYPE_GAUSSIAN_BLUR, SEQ_TYPE_SPEED]"

definition dual_input_effects :: "seq_type list" where
  "dual_input_effects =
     [SEQ_TYPE_CROSS, SEQ_TYPE_GAMCROSS, SEQ_TYPE_ALPHAOVER, SEQ_TYPE_ALPHAUNDER,
      SEQ_TYPE_ADD, SEQ_TYPE_SUB, SEQ_TYPE_MUL, SEQ_TYPE_WIPE,
      SEQ_TYPE_SCREEN, SEQ_TYPE_OVERLAY, SEQ_TYPE_COLOR_BURN, SEQ_TYPE_LINEAR_BURN,
      SEQ_TYPE_DARKEN, SEQ_TYPE_LIGHTEN, SEQ_TYPE_DODGE, SEQ_TYPE_SOFT_LIGHT,
      SEQ_TYPE_HARD_LIGHT, SEQ_TYPE_PIN_LIGHT, SEQ_TYPE_LIN_LIGHT, SEQ_TYPE_VIVID_LIGHT,
      SEQ_TYPE_BLEND_COLOR, SEQ_TYPE_HUE, SEQ_TYPE_SATURATION, SEQ_TYPE_VALUE,
      SEQ_TYPE_DIFFERENCE, SEQ_TYPE_EXCLUSION, SEQ_TYPE_COLORMIX, SEQ_TYPE_OVERDROP]"


section \<open>The pixel loop\<close>

text \<open>
  The loop nest visits the pixels \<open>0, 1, \<dots>, x * y - 1\<close> in order, the pointers being at
  offset \<open>4 * p\<close> when pixel \<open>p\<close> is processed.
\<close>

lemma inner_loop_offsets:
  "foldl (\<lambda>(s', k) j. (body k s', k + 4)) (s, k0) [0..<n] =
     (foldl (\<lambda>s' j. body (k0 + 4 * j) s') s [0..<n], k0 + 4 * n)"
  by (induction n) simp_all

lemma foldl_upt_shift:
  "foldl (\<lambda>s' j. g (a + j) s') s [0..<n] = foldl (\<lambda>s' p. g p s') s [a..<a + n]"
  by (induction n) simp_all

lemma outer_loop_offsets:
  "foldl (\<lambda>st i. foldl (\<lambda>(s', k) j. (body k s', k + 4)) st [0..<n]) (s, 0) [0..<m] =
     (foldl (\<lambda>s' p. body (4 * p) s') s [0..<n * m], 4 * (n * m))"
proof (induction m)
  case 0
  show ?case by simp
next
  case (Suc m)
  have a: "foldl (\<lambda>s' j. body (4 * (n * m) + 4 * j) s') t [0..<n] =
        foldl (\<lambda>s' p. body (4 * p) s') t [n * m..<n * m + n]" for t
    using foldl_upt_shift [of "\<lambda>p. body (4 * p)" "n * m" t n]
    by (simp only: distrib_left)
  have b: "[0..<n * m + n] = [0..<n * m] @ [n * m..<n * m + n]"
    by (simp only: upt_add_eq_append [OF le0])
  have c: "n * Suc m = n * m + n" by simp
  show ?case
    unfolding upt_Suc_append [OF le0] foldl_append foldl_Cons foldl_Nil Suc.IH
      inner_loop_offsets a c b
    by (simp add: distrib_left)
qed

lemma for_each_pixel_foldl:
  "for_each_pixel x y body s = foldl (\<lambda>s' p. body (4 * p) s') s [0..<nat x * nat y]"
  by (simp add: for_each_pixel_def outer_loop_offsets)

lemma length_put_px [simp]: "length (put_px rt k p) = length rt"
  by (cases p) (simp add: put_px_def)

lemma get_put_px_same:
  "k + 3 < length rt \<Longrightarrow> get_px (put_px rt k p) k = p"
  by (cases p) (simp add: put_px_def get_px_def)

lemma get_put_px_other:
  "k + 4 \<le> j \<or> j + 4 \<le> k \<Longrightarrow> get_px (put_px rt k p) j = get_px rt j"
  by (cases p) (auto simp add: put_px_def get_px_def)

lemma nth_put_px_other:
  "i < k \<or> k + 4 \<le> i \<Longrightarrow> put_px rt k p ! i = rt ! i"
  by (cases p) (auto simp add: put_px_def)

lemma put_px_chain:
  "rt[k := c0, k + 1 := c1, k + 2 := c2, k + 3 := c3] = put_px rt k (c0, c1, c2, c3)"
  by (simp add: put_px_def)

text \<open>A loop whose body writes pixel \<open>p\<close> with a value \<open>F p\<close> computed from the inputs.\<close>

lemma pixel_writes_length [simp]:
  "length (foldl (\<lambda>rt p. put_px rt (4 * p) (F p)) out [0..<n]) = length out"
  by (induction n) simp_all

lemma pixel_writes_get:
  "p < n \<Longrightarrow> 4 * n \<le> length out \<Longrightarrow>
   get_px (foldl (\<lambda>rt p. put_px rt (4 * p) (F p)) out [0..<n]) (4 * p) = F p"
proof (induction n)
  case 0
  then show ?case by simp
next
  case (Suc n)
  let ?r = "foldl (\<lambda>rt p. put_px rt (4 * p) (F p)) out [0..<n]"
  have len: "length ?r = length out" by simp
  have step: "foldl (\<lambda>rt p. put_px rt (4 * p) (F p)) out [0..<Suc n] =
              put_px ?r (4 * n) (F n)" by simp
  show ?case
  proof (cases "p = n")
    case True
    have "4 * n + 3 < length ?r" using Suc.prems len by simp
    then show ?thesis unfolding step True by (rule get_put_px_same)
  next
    case False
    then have pn: "p < n" using Suc.prems by simp
    then have "4 * n + 4 \<le> 4 * p \<or> 4 * p + 4 \<le> 4 * n" by simp
    then have "get_px (put_px ?r (4 * n) (F n)) (4 * p) = get_px ?r (4 * p)"
      by (rule get_put_px_other)
    moreover have "get_px ?r (4 * p) = F p"
      using Suc.IH pn Suc.prems by simp
    ultimately show ?thesis unfolding step by simp
  qed
qed

lemma buffer_eq_by_pixels:
  assumes la: "length a = 4 * n" and lb: "length b = 4 * n"
    and px: "\<And>p. p < n \<Longrightarrow> get_px a (4 * p) = get_px b (4 * p)"
  shows "a = b"
proof (rule nth_equalityI)
  show "length a = length b" using la lb by simp
next
  fix i assume "i < length a"
  then have i: "i < 4 * n" using la by simp
  define p where "p = i div 4"
  define c where "c = i mod 4"
  have pn: "p < n" using i by (simp add: p_def)
  have ic: "i = 4 * p + c" by (simp add: p_def c_def)
  have "c < 4" by (simp add: c_def)
  then consider "c = 0" | "c = 1" | "c = 2" | "c = 3" by linarith
  then show "a ! i = b ! i"
    using px [OF pn] unfolding ic by cases (simp_all add: get_px_def)
qed

lemma pixel_loop_eq_buffer:
  assumes lo: "length out = 4 * n" and lb: "length b = 4 * n"
    and F: "\<And>p. p < n \<Longrightarrow> F p = get_px b (4 * p)"
  shows "foldl (\<lambda>rt p. put_px rt (4 * p) (F p)) out [0..<n] = b"
proof (rule buffer_eq_by_pixels [where n = n])
  show "length (foldl (\<lambda>rt p. put_px rt (4 * p) (F p)) out [0..<n]) = 4 * n"
    using lo by simp
  show "length b = 4 * n" by (rule lb)
  fix p assume pn: "p < n"
  have "4 * n \<le> length out" using lo by simp
  from pixel_writes_get [OF pn this] F [OF pn]
  show "get_px (foldl (\<lambda>rt p. put_px rt (4 * p) (F p)) out [0..<n]) (4 * p) = get_px b (4 * p)"
    by simp
qed

lemma uchar_of_uint [simp]: "uchar_of_int (uint w) = w"
  by (simp add: uchar_of_int_def)

section \<open>Cross effect\<close>

lemma cross_byte_fac0:
  assumes "length rect1 = 4 * (nat x * nat y)" "length out = 4 * (nat x * nat y)"
  shows "do_cross_effect_byte 0 x y rect1 rect2 out = rect1"
  unfolding do_cross_effect_byte_def Let_def for_each_pixel_foldl put_px_chain
  by (rule pixel_loop_eq_buffer [OF assms(2) assms(1)])
     (simp add: float_to_int_def get_px_def drop_bit_eq_div)

lemma cross_byte_fac1:
  assumes "length rect2 = 4 * (nat x * nat y)" "length out = 4 * (nat x * nat y)"
  shows "do_cross_effect_byte 1 x y rect1 rect2 out = rect2"
  unfolding do_cross_effect_byte_def Let_def for_each_pixel_foldl put_px_chain
  by (rule pixel_loop_eq_buffer [OF assms(2) assms(1)])
     (simp add: float_to_int_def get_px_def drop_bit_eq_div)

lemma cross_float_fac0:
  assumes "length rect1 = 4 * (nat x * nat y)" "length out = 4 * (nat x * nat y)"
  shows "do_cross_effect_float 0 x y rect1 rect2 out = rect1"
  unfolding do_cross_effect_float_def Let_def for_each_pixel_foldl put_px_chain
  by (rule pixel_loop_eq_buffer [OF assms(2) assms(1)]) (simp add: get_px_def)

lemma cross_float_fac1:
  assumes "length rect2 = 4 * (nat x * nat y)" "length out = 4 * (nat x * nat y)"
  shows "do_cross_effect_float 1 x y rect1 rect2 out = rect2"
  unfolding do_cross_effect_float_def Let_def for_each_pixel_foldl put_px_chain
  by (rule pixel_loop_eq_buffer [OF assms(2) assms(1)]) (simp add: get_px_def)

text \<open>
  C1, as stated: the byte cross effect of a 2 x 2 opaque red image and a 2 x 2 opaque blue
  image at \<open>fac = 0.25\<close> gives the pixel \<open>(191, 0, 64, 255)\<close>. The code does not: the blue
  channel of the first output pixel differs.
\<close>

theorem cross_byte_red_blue_not_64:
  "get_px (do_cross_effect_byte (1 / 4) 2 2
      [255, 0, 0, 255, 255, 0, 0, 255, 255, 0, 0, 255, 255, 0, 0, 255]
      [0, 0, 255, 255, 0, 0, 255, 255, 0, 0, 255, 255, 0, 0, 255, 255]
      [0, 0, 0, 0, 0, 0, 0, 0, 0, 0, 0, 0, 0, 0, 0, 0]) 0 \<noteq> (191, 0, 64, 255)"
  by (simp add: do_cross_effect_byte_def for_each_pixel_def float_to_int_def uchar_of_int_def
      get_px_def Let_def upt_rec drop_bit_eq_div)

text \<open>
  C1, amended: with \<open>temp_fac = int(256 * 0.25) = 64\<close> and \<open>temp_mfac = 192\<close> the shift
  formula truncates \<open>64 * 255 / 256 = 63.75\<close> to 63, so every output pixel is
  \<open>(191, 0, 63, 255)\<close>, whatever the output buffer held before.
\<close>

theorem cross_byte_red_blue_quarter:
  "do_cross_effect_byte (1 / 4) 2 2
      [255, 0, 0, 255, 255, 0, 0, 255, 255, 0, 0, 255, 255, 0, 0, 255]
      [0, 0, 255, 255, 0, 0, 255, 255, 0, 0, 255, 255, 0, 0, 255, 255]
      [o0, o1, o2, o3, o4, o5, o6, o7, o8, o9, o10, o11, o12, o13, o14, o15]
   = [191, 0, 63, 255, 191, 0, 63, 255, 191, 0, 63, 255, 191, 0, 63, 255]"
  by (simp add: do_cross_effect_byte_def for_each_pixel_def float_to_int_def uchar_of_int_def
      Let_def upt_rec drop_bit_eq_div)

text \<open>
  C4: for input and output buffers of \<open>x * y\<close> pixels each, the cross effect at factor 0
  returns input 1 and at factor 1 returns input 2, in the byte path (where \<open>temp_fac\<close> is 0
  or 256) and in the float path; the early-out of cross, \<open>early_out_fade\<close>, answers
  use-input-1 at factor 0 and use-input-2 at factor 1.
\<close>

theorem cross_effect_boundary_factors:
  assumes "length rect1 = 4 * (nat x * nat y)" and "length rect2 = 4 * (nat x * nat y)"
    and "length out = 4 * (nat x * nat y)"
    and "length frect1 = 4 * (nat x * nat y)" and "length frect2 = 4 * (nat x * nat y)"
    and "length fout = 4 * (nat x * nat y)"
  shows "do_cross_effect_byte 0 x y rect1 rect2 out = rect1
       \<and> do_cross_effect_byte 1 x y rect1 rect2 out = rect2
       \<and> do_cross_effect_float 0 x y frect1 frect2 fout = frect1
       \<and> do_cross_effect_float 1 x y frect1 frect2 fout = frect2
       \<and> early_out_fade 0 = EARLY_USE_INPUT_1
       \<and> early_out_fade 1 = EARLY_USE_INPUT_2"
  using assms
  by (simp add: cross_byte_fac0 cross_byte_fac1 cross_float_fac0 cross_float_fac1
      early_out_fade_def)

theorem cross_effect_boundary_factors_witness:
  "do_cross_effect_byte 0 2 1 [1, 2, 3, 4, 5, 6, 7, 8] [9, 10, 11, 12, 13, 14, 15, 16]
       [0, 0, 0, 0, 0, 0, 0, 0] = [1, 2, 3, 4, 5, 6, 7, 8]
   \<and> do_cross_effect_byte 1 2 1 [1, 2, 3, 4, 5, 6, 7, 8] [9, 10, 11, 12, 13, 14, 15, 16]
       [0, 0, 0, 0, 0, 0, 0, 0] = [9, 10, 11, 12, 13, 14, 15, 16]
   \<and> do_cross_effect_float 0 2 1 [1 / 2, 0, 0, 1, 1, 1, 1, 1] [0, 0, 1 / 4, 1, 0, 0, 0, 0]
       [0, 0, 0, 0, 0, 0, 0, 0] = [1 / 2, 0, 0, 1, 1, 1, 1, 1]
   \<and> do_cross_effect_float 1 2 1 [1 / 2, 0, 0, 1, 1, 1, 1, 1] [0, 0, 1 / 4, 1, 0, 0, 0, 0]
       [0, 0, 0, 0, 0, 0, 0, 0] = [0, 0, 1 / 4, 1, 0, 0, 0, 0]"
  using cross_effect_boundary_factors [of "[1, 2, 3, 4, 5, 6, 7, 8]" 2 1
      "[9, 10, 11, 12, 13, 14, 15, 16]" "[0, 0, 0, 0, 0, 0, 0, 0]"
      "[1 / 2, 0, 0, 1, 1, 1, 1, 1]" "[0, 0, 1 / 4, 1, 0, 0, 0, 0]" "[0, 0, 0, 0, 0, 0, 0, 0]"]
  by simp

section \<open>Add, subtract and multiply: the alpha channel\<close>

lemma px_alpha_tuple [simp]: "px_alpha (c0, c1, c2, c3) = c3"
  by (simp add: px_alpha_def)

lemma px_alpha_get_px: "px_alpha (get_px rect k) = rect ! (k + 3)"
  by (simp add: get_px_def)

lemma add_byte_alpha:
  assumes "p < nat x * nat y" "length out = 4 * (nat x * nat y)"
  shows "px_alpha (get_px (do_add_effect_byte fac x y rect1 rect2 out) (4 * p)) = rect1 ! (4 * p + 3)"
  unfolding do_add_effect_byte_def Let_def for_each_pixel_foldl put_px_chain
  using pixel_writes_get [OF assms(1), of out] assms(2) by simp

lemma add_float_alpha:
  assumes "p < nat x * nat y" "length out = 4 * (nat x * nat y)"
  shows "px_alpha (get_px (do_add_effect_float fac x y rect1 rect2 out) (4 * p)) = rect1 ! (4 * p + 3)"
  unfolding do_add_effect_float_def Let_def for_each_pixel_foldl put_px_chain
  using pixel_writes_get [OF assms(1), of out] assms(2) by simp

lemma sub_byte_alpha:
  assumes "p < nat x * nat y" "length out = 4 * (nat x * nat y)"
  shows "px_alpha (get_px (do_sub_effect_byte fac x y rect1 rect2 out) (4 * p)) = rect1 ! (4 * p + 3)"
  unfolding do_sub_effect_byte_def Let_def for_each_pixel_foldl put_px_chain
  using pixel_writes_get [OF assms(1), of out] assms(2) by simp

lemma sub_float_alpha:
  assumes "p < nat x * nat y" "length out = 4 * (nat x * nat y)"
  shows "px_alpha (get_px (do_sub_effect_float fac x y rect1 rect2 out) (4 * p)) = rect1 ! (4 * p + 3)"
  unfolding do_sub_effect_float_def Let_def for_each_pixel_foldl put_px_chain
  using pixel_writes_get [OF assms(1), of out] assms(2) by simp

lemma mul_byte_alpha:
  assumes "p < nat x * nat y" "length out = 4 * (nat x * nat y)"
  shows "px_alpha (get_px (do_mul_effect_byte fac x y rect1 rect2 out) (4 * p)) =
     uchar_of_int (uint (rect1 ! (4 * p + 3)) +
       drop_bit 16 (float_to_int (256 * fac) * uint (rect1 ! (4 * p + 3)) * (uint (rect2 ! (4 * p + 3)) - 255)))"
  unfolding do_mul_effect_byte_def Let_def for_each_pixel_foldl put_px_chain
  using pixel_writes_get [OF assms(1), of out] assms(2) by simp

lemma mul_float_alpha:
  assumes "p < nat x * nat y" "length out = 4 * (nat x * nat y)"
  shows "px_alpha (get_px (do_mul_effect_float fac x y rect1 rect2 out) (4 * p)) =
     rect1 ! (4 * p + 3) + fac * rect1 ! (4 * p + 3) * (rect2 ! (4 * p + 3) - 1)"
  unfolding do_mul_effect_float_def Let_def for_each_pixel_foldl put_px_chain
  using pixel_writes_get [OF assms(1), of out] assms(2) by simp

text \<open>
  C2, as stated: add, subtract and multiply, byte and float, leave the alpha of input 1 in
  the output for every factor. The byte multiply does not: at \<open>fac = 1\<close>, an opaque white
  pixel of input 1 over a transparent black pixel of input 2 comes out with alpha 0.
\<close>

theorem mul_byte_alpha_changes:
  "px_alpha (get_px (do_mul_effect_byte 1 1 1 [255, 255, 255, 255] [0, 0, 0, 0] [0, 0, 0, 0]) 0)
     \<noteq> px_alpha (get_px [255, 255, 255, 255] 0)"
  by (simp add: do_mul_effect_byte_def for_each_pixel_def float_to_int_def uchar_of_int_def
      get_px_def Let_def upt_rec drop_bit_eq_div)

text \<open>
  C2, amended: for every pixel \<open>p\<close> and every factor, the add and subtract effects (byte and
  float) copy the alpha of input 1 to the output; the multiply effect treats alpha as a
  fourth colour channel: with \<open>a1\<close>, \<open>a2\<close> the alpha of the two inputs, the byte path
  stores \<open>a1 + ((temp_fac * a1 * (a2 - 255)) >> 16)\<close> and the float path
  \<open>a1 + fac * a1 * (a2 - 1)\<close>.
\<close>

theorem add_sub_keep_alpha_mul_blends_alpha:
  assumes "p < nat x * nat y"
    and "length rect1 = 4 * (nat x * nat y)" and "length rect2 = 4 * (nat x * nat y)"
    and "length out = 4 * (nat x * nat y)"
    and "length frect1 = 4 * (nat x * nat y)" and "length frect2 = 4 * (nat x * nat y)"
    and "length fout = 4 * (nat x * nat y)"
  shows "px_alpha (get_px (do_add_effect_byte fac x y rect1 rect2 out) (4 * p))
           = px_alpha (get_px rect1 (4 * p))
       \<and> px_alpha (get_px (do_add_effect_float fac x y frect1 frect2 fout) (4 * p))
           = px_alpha (get_px frect1 (4 * p))
       \<and> px_alpha (get_px (do_sub_effect_byte fac x y rect1 rect2 out) (4 * p))
           = px_alpha (get_px rect1 (4 * p))
       \<and> px_alpha (get_px (do_sub_effect_float fac x y frect1 frect2 fout) (4 * p))
           = px_alpha (get_px frect1 (4 * p))
       \<and> px_alpha (get_px (do_mul_effect_byte fac x y rect1 rect2 out) (4 * p))
           = uchar_of_int (uint (px_alpha (get_px rect1 (4 * p))) +
               drop_bit 16 (float_to_int (256 * fac) * uint (px_alpha (get_px rect1 (4 * p))) *
                 (uint (px_alpha (get_px rect2 (4 * p))) - 255)))
       \<and> px_alpha (get_px (do_mul_effect_float fac x y frect1 frect2 fout) (4 * p))
           = px_alpha (get_px frect1 (4 * p)) +
               fac * px_alpha (get_px frect1 (4 * p)) * (px_alpha (get_px frect2 (4 * p)) - 1)"
  unfolding px_alpha_get_px [of rect1] px_alpha_get_px [of rect2]
    px_alpha_get_px [of frect1] px_alpha_get_px [of frect2]
  using assms
  by (simp add: add_byte_alpha add_float_alpha sub_byte_alpha sub_float_alpha
      mul_byte_alpha mul_float_alpha)

theorem add_sub_keep_alpha_mul_blends_alpha_witness:
  "px_alpha (get_px (do_add_effect_byte (1 / 2) 1 1 [10, 20, 30, 200] [1, 2, 3, 100] [0, 0, 0, 0]) 0) = 200
   \<and> px_alpha (get_px (do_add_effect_float (1 / 2) 1 1 [1, 0, 0, 1 / 2] [0, 0, 1, 1 / 4] [0, 0, 0, 0]) 0) = 1 / 2
   \<and> px_alpha (get_px (do_sub_effect_byte (1 / 2) 1 1 [10, 20, 30, 200] [1, 2, 3, 100] [0, 0, 0, 0]) 0) = 200
   \<and> px_alpha (get_px (do_sub_effect_float (1 / 2) 1 1 [1, 0, 0, 1 / 2] [0, 0, 1, 1 / 4] [0, 0, 0, 0]) 0) = 1 / 2
   \<and> px_alpha (get_px (do_mul_effect_byte (1 / 2) 1 1 [10, 20, 30, 200] [1, 2, 3, 100] [0, 0, 0, 0]) 0) = 139
   \<and> px_alpha (get_px (do_mul_effect_float (1 / 2) 1 1 [1, 0, 0, 1 / 2] [0, 0, 1, 1 / 4] [0, 0, 0, 0]) 0) = 5 / 16"
  using add_sub_keep_alpha_mul_blends_alpha [of 0 1 1 "[10, 20, 30, 200]" "[1, 2, 3, 100]"
      "[0, 0, 0, 0]" "[1, 0, 0, 1 / 2]" "[0, 0, 1, 1 / 4]" "[0, 0, 0, 0]" "1 / 2"]
  by (simp add: px_alpha_get_px float_to_int_def uchar_of_int_def drop_bit_eq_div)

section \<open>Alpha over\<close>

lemma alphaover_byte_body:
  "(case dec a of (rt1_0, rt1_1, rt1_2, rt1_3) \<Rightarrow>
    case dec b of (rt2_0, rt2_1, rt2_2, rt2_3) \<Rightarrow>
      let mfac = 1 - fac * rt1_3
      in if fac \<le> 0 then put_px rt k b
         else if mfac \<le> 0 then put_px rt k a
         else put_px rt k (enc
                (fac * rt1_0 + mfac * rt2_0,
                 fac * rt1_1 + mfac * rt2_1,
                 fac * rt1_2 + mfac * rt2_2,
                 fac * rt1_3 + mfac * rt2_3)))
   = put_px rt k (alphaover_formula dec enc fac a b)"
  by (simp add: alphaover_formula_def Let_def split: prod.splits)

lemma alphaover_byte_pixel:
  assumes "p < nat x * nat y" "length out = 4 * (nat x * nat y)"
  shows "get_px (do_alphaover_effect_byte dec enc fac x y rect1 rect2 out) (4 * p) =
         alphaover_formula dec enc fac (get_px rect1 (4 * p)) (get_px rect2 (4 * p))"
  unfolding do_alphaover_effect_byte_def for_each_pixel_foldl alphaover_byte_body
  using pixel_writes_get [OF assms(1), of out] assms(2) by simp

lemma alphaover_float_body:
  "(let mfac = 1 - (fac * rect1 ! (k + 3))
    in if fac \<le> 0 then put_px rt k (get_px rect2 k)
       else if mfac \<le> 0 then put_px rt k (get_px rect1 k)
       else rt[k := fac * rect1 ! k + mfac * rect2 ! k,
               k + 1 := fac * rect1 ! (k + 1) + mfac * rect2 ! (k + 1),
               k + 2 := fac * rect1 ! (k + 2) + mfac * rect2 ! (k + 2),
               k + 3 := fac * rect1 ! (k + 3) + mfac * rect2 ! (k + 3)])
   = put_px rt k (alphaover_formula (\<lambda>p. p) (\<lambda>p. p) fac (get_px rect1 k) (get_px rect2 k))"
  by (simp add: alphaover_formula_def Let_def get_px_def put_px_def)

lemma alphaover_float_pixel:
  assumes "p < nat x * nat y" "length out = 4 * (nat x * nat y)"
  shows "get_px (do_alphaover_effect_float fac x y rect1 rect2 out) (4 * p) =
         alphaover_formula (\<lambda>p. p) (\<lambda>p. p) fac (get_px rect1 (4 * p)) (get_px rect2 (4 * p))"
  unfolding do_alphaover_effect_float_def for_each_pixel_foldl alphaover_float_body
  using pixel_writes_get [OF assms(1), of out] assms(2) by simp

text \<open>
  C3, as stated: in the byte and in the float path the pixels are decoded from straight to
  premultiplied alpha, blended, and encoded back to straight alpha. The float path does
  neither conversion: for the half transparent pixel \<open>(0.5, 0, 0, 0.5)\<close> over the opaque
  blue pixel \<open>(0, 0, 1, 1)\<close> at \<open>fac = 1\<close> it stores \<open>(0.5, 0, 0.5, 1)\<close>, the formula with
  the conversions gives \<open>(0.25, 0, 0.5, 1)\<close>.
\<close>

theorem alphaover_float_not_reencoded:
  "get_px (do_alphaover_effect_float 1 1 1 [1 / 2, 0, 0, 1 / 2] [0, 0, 1, 1] [0, 0, 0, 0]) 0
     \<noteq> alphaover_formula spec_straight_to_premul spec_premul_to_straight 1
          (get_px [1 / 2, 0, 0, 1 / 2] 0) (get_px [0, 0, 1, 1] 0)"
  by (simp add: do_alphaover_effect_float_def for_each_pixel_def alphaover_formula_def
      spec_straight_to_premul_def spec_premul_to_straight_def get_px_def put_px_def Let_def upt_rec)

text \<open>
  C3, amended: for every pixel \<open>p\<close>, the byte path gives the formula of the claim with the
  decoding \<open>straight_uchar_to_premul_float\<close> and the encoding
  \<open>premul_float_to_straight_uchar\<close>; the float path gives the same formula on the stored
  channels, with no decoding and no encoding (\<open>mfac = 1 - fac * in1[3]\<close>, input 2 verbatim
  if \<open>fac <= 0\<close>, input 1 verbatim if \<open>mfac <= 0\<close>, else \<open>fac * in1[c] + mfac * in2[c]\<close>
  stored as it is).
\<close>

theorem alphaover_pixel_formula:
  assumes "p < nat x * nat y"
    and "length rect1 = 4 * (nat x * nat y)" and "length rect2 = 4 * (nat x * nat y)"
    and "length out = 4 * (nat x * nat y)"
    and "length frect1 = 4 * (nat x * nat y)" and "length frect2 = 4 * (nat x * nat y)"
    and "length fout = 4 * (nat x * nat y)"
  shows "get_px (do_alphaover_effect_byte straight_uchar_to_premul_float
                   premul_float_to_straight_uchar fac x y rect1 rect2 out) (4 * p)
           = alphaover_formula straight_uchar_to_premul_float premul_float_to_straight_uchar fac
               (get_px rect1 (4 * p)) (get_px rect2 (4 * p))
       \<and> get_px (do_alphaover_effect_float fac x y frect1 frect2 fout) (4 * p)
           = alphaover_formula (\<lambda>q. q) (\<lambda>q. q) fac (get_px frect1 (4 * p)) (get_px frect2 (4 * p))"
  using assms by (simp add: alphaover_byte_pixel alphaover_float_pixel)

theorem alphaover_pixel_formula_witness:
  "get_px (do_alphaover_effect_byte
       (\<lambda>(c0, c1, c2, c3). (real_of_int (uint c0) * real_of_int (uint c3) / 65025,
                             real_of_int (uint c1) * real_of_int (uint c3) / 65025,
                             real_of_int (uint c2) * real_of_int (uint c3) / 65025,
                             real_of_int (uint c3) / 255))
       (\<lambda>(r, g, b, a). (uchar_of_float (255 * r / a), uchar_of_float (255 * g / a),
                         uchar_of_float (255 * b / a), uchar_of_float (255 * a)))
       (1 / 2) 1 1 [255, 0, 0, 255] [0, 0, 255, 255] [0, 0, 0, 0]) 0 = (127, 0, 127, 255)
   \<and> get_px (do_alphaover_effect_float (1 / 2) 1 1 [1 / 2, 0, 0, 1 / 2] [0, 0, 1, 1] [0, 0, 0, 0]) 0
       = (1 / 4, 0, 3 / 4, 1)"
  using alphaover_pixel_formula [where p = 0 and x = 1 and y = 1
      and ?rect1.0 = "[255, 0, 0, 255]" and ?rect2.0 = "[0, 0, 255, 255]" and out = "[0, 0, 0, 0]"
      and ?frect1.0 = "[1 / 2, 0, 0, 1 / 2]" and ?frect2.0 = "[0, 0, 1, 1]"
      and fout = "[0, 0, 0, 0]" and fac = "1 / 2"
      and straight_uchar_to_premul_float =
        "\<lambda>(c0, c1, c2, c3). (real_of_int (uint c0) * real_of_int (uint c3) / 65025,
                             real_of_int (uint c1) * real_of_int (uint c3) / 65025,
                             real_of_int (uint c2) * real_of_int (uint c3) / 65025,
                             real_of_int (uint c3) / 255)"
      and premul_float_to_straight_uchar =
        "\<lambda>(r, g, b, a). (uchar_of_float (255 * r / a), uchar_of_float (255 * g / a),
                         uchar_of_float (255 * b / a), uchar_of_float (255 * a))"]
  by (simp add: alphaover_formula_def get_px_def uchar_of_float_def uchar_of_int_def
      float_to_int_def)

section \<open>Blend modes: the alpha channels\<close>

lemma with_alpha_tuple [simp]: "with_alpha (c0, c1, c2, c3) a = (c0, c1, c2, a)"
  by (simp add: with_alpha_def)

lemma px_alpha_with_alpha [simp]: "px_alpha (with_alpha q a) = a"
  by (cases q) simp

lemma put_px_then_alpha:
  "(put_px rt k q)[k + 3 := a] = put_px rt k (with_alpha q a)"
  by (cases q) (simp add: put_px_def)

lemma get_px_scaled_byte:
  "k + 3 < length rt2 \<Longrightarrow> get_px (rt2[k + 3 := s]) k = with_alpha (get_px rt2 k) s"
  by (simp add: get_px_def)

lemma prescaled_byte_eq:
  "prescaled_byte fac q = with_alpha q (uchar_of_float (real_of_int (uint (px_alpha q)) * fac))"
  by (cases q) (simp add: prescaled_byte_def)

lemma prescaled_float_eq:
  "prescaled_float fac q = with_alpha q (px_alpha q * fac)"
  by (cases q) (simp add: prescaled_float_def)

lemma blend_byte_loop:
  "4 * n \<le> length rect2 \<Longrightarrow>
   foldl (\<lambda>s' p. (\<lambda>k (rt2, rt).
       let achannel = uint (rt2 ! (k + 3));
           rt2 = rt2[k + 3 := uchar_of_float (real_of_int achannel * fac)];
           rt = put_px rt k (blend_function (get_px rect1 k) (get_px rt2 k));
           rt2 = rt2[k + 3 := uchar_of_int achannel];
           rt = rt[k + 3 := rect1 ! (k + 3)]
       in (rt2, rt)) (4 * p) s') (rect2, out) [0..<n] =
   (rect2, foldl (\<lambda>rt p. put_px rt (4 * p)
      (with_alpha (blend_function (get_px rect1 (4 * p)) (prescaled_byte fac (get_px rect2 (4 * p))))
         (rect1 ! (4 * p + 3)))) out [0..<n])"
proof (induction n)
  case 0
  show ?case by simp
next
  case (Suc n)
  then have "4 * n + 3 < length rect2" by simp
  then show ?case
    using Suc
    by (simp add: Let_def put_px_then_alpha get_px_scaled_byte prescaled_byte_eq px_alpha_get_px)
qed

lemma blend_float_loop:
  "4 * n \<le> length rect2 \<Longrightarrow>
   foldl (\<lambda>s' p. (\<lambda>k (rt2, rt).
       let achannel = rt2 ! (k + 3);
           rt2 = rt2[k + 3 := achannel * fac];
           rt = put_px rt k (blend_function (get_px rect1 k) (get_px rt2 k));
           rt2 = rt2[k + 3 := achannel];
           rt = rt[k + 3 := rect1 ! (k + 3)]
       in (rt2, rt)) (4 * p) s') (rect2, out) [0..<n] =
   (rect2, foldl (\<lambda>rt p. put_px rt (4 * p)
      (with_alpha (blend_function (get_px rect1 (4 * p)) (prescaled_float fac (get_px rect2 (4 * p))))
         (rect1 ! (4 * p + 3)))) out [0..<n])"
proof (induction n)
  case 0
  show ?case by simp
next
  case (Suc n)
  then have "4 * n + 3 < length rect2" by simp
  then show ?case
    using Suc
    by (simp add: Let_def put_px_then_alpha get_px_scaled_byte prescaled_float_eq px_alpha_get_px)
qed

lemma blend_byte_result:
  assumes "length rect2 = 4 * (nat x * nat y)"
  shows "apply_blend_function_byte fac x y rect1 rect2 out blend_function =
     (rect2, foldl (\<lambda>rt p. put_px rt (4 * p)
      (with_alpha (blend_function (get_px rect1 (4 * p)) (prescaled_byte fac (get_px rect2 (4 * p))))
         (rect1 ! (4 * p + 3)))) out [0..<nat x * nat y])"
  unfolding apply_blend_function_byte_def for_each_pixel_foldl
  using assms by (intro blend_byte_loop) simp

lemma blend_float_result:
  assumes "length rect2 = 4 * (nat x * nat y)"
  shows "apply_blend_function_float fac x y rect1 rect2 out blend_function =
     (rect2, foldl (\<lambda>rt p. put_px rt (4 * p)
      (with_alpha (blend_function (get_px rect1 (4 * p)) (prescaled_float fac (get_px rect2 (4 * p))))
         (rect1 ! (4 * p + 3)))) out [0..<nat x * nat y])"
  unfolding apply_blend_function_float_def for_each_pixel_foldl
  using assms by (intro blend_float_loop) simp

text \<open>
  C5: for every blend function passed to \<open>apply_blend_function_byte\<close> or
  \<open>apply_blend_function_float\<close> and for every pixel \<open>p\<close>: the blend function receives the
  pixel of input 1 and the pixel of input 2 with its alpha scaled by \<open>fac\<close>; when the call
  returns input buffer 2 is what it was; the output pixel is the result of the blend
  function with its alpha replaced by the alpha of input 1.
\<close>

theorem blend_function_alpha_handling:
  assumes "p < nat x * nat y"
    and "length rect1 = 4 * (nat x * nat y)" and "length rect2 = 4 * (nat x * nat y)"
    and "length out = 4 * (nat x * nat y)"
    and "length frect1 = 4 * (nat x * nat y)" and "length frect2 = 4 * (nat x * nat y)"
    and "length fout = 4 * (nat x * nat y)"
  shows "fst (apply_blend_function_byte fac x y rect1 rect2 out blend_byte) = rect2
       \<and> get_px (snd (apply_blend_function_byte fac x y rect1 rect2 out blend_byte)) (4 * p)
           = with_alpha (blend_byte (get_px rect1 (4 * p)) (prescaled_byte fac (get_px rect2 (4 * p))))
               (px_alpha (get_px rect1 (4 * p)))
       \<and> px_alpha (get_px (snd (apply_blend_function_byte fac x y rect1 rect2 out blend_byte)) (4 * p))
           = px_alpha (get_px rect1 (4 * p))
       \<and> fst (apply_blend_function_float fac x y frect1 frect2 fout blend_float) = frect2
       \<and> get_px (snd (apply_blend_function_float fac x y frect1 frect2 fout blend_float)) (4 * p)
           = with_alpha (blend_float (get_px frect1 (4 * p)) (prescaled_float fac (get_px frect2 (4 * p))))
               (px_alpha (get_px frect1 (4 * p)))
       \<and> px_alpha (get_px (snd (apply_blend_function_float fac x y frect1 frect2 fout blend_float)) (4 * p))
           = px_alpha (get_px frect1 (4 * p))"
  unfolding blend_byte_result [OF assms(3)] blend_float_result [OF assms(6)] fst_conv snd_conv
    px_alpha_get_px [of rect1] px_alpha_get_px [of frect1]
  using pixel_writes_get [OF assms(1), of out] pixel_writes_get [OF assms(1), of fout]
    assms(4) assms(7)
  by simp

theorem blend_function_alpha_handling_witness:
  "apply_blend_function_byte (1 / 2) 1 1 [10, 20, 30, 200] [1, 2, 3, 100] [0, 0, 0, 0]
       (\<lambda>(a0, a1, a2, a3) (b0, b1, b2, b3). (b3, b1, b2, b3))
     = ([1, 2, 3, 100], [50, 2, 3, 200])
   \<and> apply_blend_function_float (1 / 2) 1 1 [1, 0, 0, 1 / 2] [0, 0, 1, 1 / 4] [0, 0, 0, 0]
       (\<lambda>(a0, a1, a2, a3) (b0, b1, b2, b3). (b3, b1, b2, b3))
     = ([0, 0, 1, 1 / 4], [1 / 8, 0, 1, 1 / 2])"
proof -
  let ?bb = "\<lambda>(a0 :: 8 word, a1 :: 8 word, a2 :: 8 word, a3 :: 8 word)
               (b0 :: 8 word, b1 :: 8 word, b2 :: 8 word, b3 :: 8 word). (b3, b1, b2, b3)"
  let ?bf = "\<lambda>(a0 :: real, a1 :: real, a2 :: real, a3 :: real)
               (b0 :: real, b1 :: real, b2 :: real, b3 :: real). (b3, b1, b2, b3)"
  let ?rb = "apply_blend_function_byte (1 / 2) 1 1 [10, 20, 30, 200] [1, 2, 3, 100] [0, 0, 0, 0] ?bb"
  let ?rf = "apply_blend_function_float (1 / 2) 1 1 [1, 0, 0, 1 / 2] [0, 0, 1, 1 / 4] [0, 0, 0, 0] ?bf"
  have lb: "length (snd ?rb) = 4" and lf: "length (snd ?rf) = 4"
    by (simp_all add: blend_byte_result blend_float_result)
  have inst: "fst ?rb = [1, 2, 3, 100] \<and> get_px (snd ?rb) 0 = (50, 2, 3, 200)
      \<and> fst ?rf = [0, 0, 1, 1 / 4] \<and> get_px (snd ?rf) 0 = (1 / 8, 0, 1, 1 / 2)"
    using blend_function_alpha_handling [where p = 0 and x = 1 and y = 1
      and ?rect1.0 = "[10, 20, 30, 200]" and ?rect2.0 = "[1, 2, 3, 100]" and out = "[0, 0, 0, 0]"
      and ?frect1.0 = "[1, 0, 0, 1 / 2]" and ?frect2.0 = "[0, 0, 1, 1 / 4]" and fout = "[0, 0, 0, 0]"
      and fac = "1 / 2" and blend_byte = ?bb and blend_float = ?bf]
    by (simp add: get_px_def prescaled_byte_def prescaled_float_def px_alpha_def
        uchar_of_float_def uchar_of_int_def float_to_int_def)
  have "snd ?rb = [50, 2, 3, 200]"
    by (rule buffer_eq_by_pixels [where n = 1]) (use lb inst in \<open>simp_all add: get_px_def\<close>)
  moreover have "snd ?rf = [1 / 8, 0, 1, 1 / 2]"
    by (rule buffer_eq_by_pixels [where n = 1]) (use lf inst in \<open>simp_all add: get_px_def\<close>)
  ultimately show ?thesis using inst by (simp add: prod_eq_iff)
qed

section \<open>Speed effect: the frame map stays in range\<close>

lemma CLAMP_bounds: "b \<le> c \<Longrightarrow> b \<le> CLAMP a b c \<and> CLAMP a b c \<le> c"
  by (simp add: CLAMP_def)

lemma speed_map_loop_Suc:
  "1 \<le> k \<Longrightarrow>
   speed_map_loop fcu left M (Suc k) st =
     (case speed_map_loop fcu left M k st of (target_frame, fm) \<Rightarrow>
        (CLAMP (target_frame + fcu (real_of_int (left + int k))) 0 (real_of_int M),
         fm[k := CLAMP (target_frame + fcu (real_of_int (left + int k))) 0 (real_of_int M)]))"
  by (simp add: speed_map_loop_def Let_def split: prod.splits)

lemma speed_map_loop_char:
  assumes "1 \<le> k" and "k \<le> length fm0" and "fm0 ! 0 = 0"
  shows "length (snd (speed_map_loop fcu left M k (0, fm0))) = length fm0
       \<and> fst (speed_map_loop fcu left M k (0, fm0)) = snd (speed_map_loop fcu left M k (0, fm0)) ! (k - 1)
       \<and> snd (speed_map_loop fcu left M k (0, fm0)) ! 0 = 0
       \<and> (\<forall>i. 1 \<le> i \<and> i < k \<longrightarrow>
            snd (speed_map_loop fcu left M k (0, fm0)) ! i =
              CLAMP (snd (speed_map_loop fcu left M k (0, fm0)) ! (i - 1)
                       + fcu (real_of_int (left + int i))) 0 (real_of_int M))"
  using assms
proof (induction k rule: dec_induct)
  case base
  then show ?case by (simp add: speed_map_loop_def)
next
  case (step k)
  obtain t fm where r: "speed_map_loop fcu left M k (0, fm0) = (t, fm)"
    by (cases "speed_map_loop fcu left M k (0, fm0)")
  have kl: "k < length fm0" using step.prems by simp
  from step.IH kl step.prems r
  have len: "length fm = length fm0" and t: "t = fm ! (k - 1)" and z: "fm ! 0 = 0"
    and rec: "\<And>i. 1 \<le> i \<Longrightarrow> i < k \<Longrightarrow>
        fm ! i = CLAMP (fm ! (i - 1) + fcu (real_of_int (left + int i))) 0 (real_of_int M)"
    by simp_all
  let ?v = "CLAMP (t + fcu (real_of_int (left + int k))) 0 (real_of_int M)"
  have r': "speed_map_loop fcu left M (Suc k) (0, fm0) = (?v, fm[k := ?v])"
    using speed_map_loop_Suc [OF step.hyps(1), of fcu left M "(0, fm0)"] r by simp
  have all: "\<forall>i. 1 \<le> i \<and> i < Suc k \<longrightarrow>
      fm[k := ?v] ! i = CLAMP (fm[k := ?v] ! (i - 1) + fcu (real_of_int (left + int i))) 0 (real_of_int M)"
  proof (intro allI impI)
    fix i assume i: "1 \<le> i \<and> i < Suc k"
    show "fm[k := ?v] ! i = CLAMP (fm[k := ?v] ! (i - 1) + fcu (real_of_int (left + int i))) 0 (real_of_int M)"
    proof (cases "i = k")
      case True
      then show ?thesis using i kl len t by simp
    next
      case False
      then have ik: "i < k" using i by simp
      have "fm[k := ?v] ! i = fm ! i" using ik by simp
      moreover have "fm[k := ?v] ! (i - 1) = fm ! (i - 1)" using ik by simp
      ultimately show ?thesis using rec [of i] i ik by simp
    qed
  qed
  have l': "length (fm[k := ?v]) = length fm0" using len by simp
  have t': "?v = fm[k := ?v] ! (Suc k - 1)" using kl len by simp
  have z': "fm[k := ?v] ! 0 = 0" using z step.hyps(1) by simp
  show ?case
    unfolding r' fst_conv snd_conv using l' t' z' all by blast
qed

lemma speed_map_entries_bounded:
  assumes "1 \<le> k" and "k \<le> length fm0" and "fm0 ! 0 = 0" and "0 \<le> M" and "i < k"
  shows "0 \<le> snd (speed_map_loop fcu left M k (0, fm0)) ! i
       \<and> snd (speed_map_loop fcu left M k (0, fm0)) ! i \<le> real_of_int M"
proof (cases "i = 0")
  case True
  then show ?thesis using speed_map_loop_char [OF assms(1-3), of fcu left M] assms(4) by simp
next
  case False
  then have "1 \<le> i \<and> i < k" using assms(5) by simp
  then have "snd (speed_map_loop fcu left M k (0, fm0)) ! i =
              CLAMP (snd (speed_map_loop fcu left M k (0, fm0)) ! (i - 1)
                       + fcu (real_of_int (left + int i))) 0 (real_of_int M)"
    using speed_map_loop_char [OF assms(1-3), of fcu left M] by blast
  moreover have "(0::real) \<le> real_of_int M" using assms(4) by simp
  ultimately show ?thesis using CLAMP_bounds [of 0 "real_of_int M"] by simp
qed

text \<open>
  C6: when \<open>seq_effect_speed_rebuild_map\<close> runs for a speed strip with an input strip (of
  non-negative length), a strip length of at least one frame and a speed factor curve, it
  leaves a frame map with one entry per frame of the strip; entry 0 is 0, every later
  entry is the clamped sum of its predecessor and the curve value at its frame, and every
  entry lies between 0 and the length of the source strip, whatever values the curve takes.
\<close>

theorem speed_frame_map_bounded:
  assumes "seq1_length seq = Some source_length" and "0 \<le> source_length"
    and "1 \<le> right_handle seq - left_handle seq"
    and "speed_factor_curve seq = Some fcu"
  shows "\<exists>fm. frameMap (seq_effect_speed_rebuild_map seq) = Some fm
       \<and> length fm = nat (right_handle seq - left_handle seq)
       \<and> fm ! 0 = 0
       \<and> (\<forall>i. 1 \<le> i \<and> i < length fm \<longrightarrow>
            fm ! i = CLAMP (fm ! (i - 1) + fcu (real_of_int (left_handle seq + int i))) 0
                       (real_of_int source_length))
       \<and> (\<forall>i < length fm. 0 \<le> fm ! i \<and> fm ! i \<le> real_of_int source_length)"
proof -
  let ?n = "nat (right_handle seq - left_handle seq)"
  let ?init = "(replicate ?n (0::real))[0 := 0]"
  let ?fm = "snd (speed_map_loop fcu (left_handle seq) source_length ?n (0, ?init))"
  have n: "1 \<le> ?n" using assms(3) by simp
  have l0: "?n \<le> length ?init" by simp
  have z0: "?init ! 0 = 0" using n by simp
  have res: "frameMap (seq_effect_speed_rebuild_map seq) = Some ?fm"
    using assms by (simp add: seq_effect_speed_rebuild_map_def Let_def)
  have len: "length ?fm = ?n"
    using speed_map_loop_char [OF n l0 z0, of fcu "left_handle seq" source_length] by simp
  have "\<forall>i < length ?fm. 0 \<le> ?fm ! i \<and> ?fm ! i \<le> real_of_int source_length"
    using speed_map_entries_bounded [OF n l0 z0 assms(2)] len by simp
  then show ?thesis
    using res len speed_map_loop_char [OF n l0 z0, of fcu "left_handle seq" source_length]
    by simp
qed

theorem speed_frame_map_bounded_witness:
  "(0::int) \<le> 5 \<and> (1::int) \<le> 14 - 10
   \<and> frameMap (seq_effect_speed_rebuild_map
        \<lparr>left_handle = 10, right_handle = 14, seq1_length = Some 5,
         speed_factor_curve = Some (\<lambda>t. 5 * (t - 10) - 7), frameMap = None\<rparr>)
       = Some [0, 0, 3, 5]"
  using speed_frame_map_bounded [of
      "\<lparr>left_handle = 10, right_handle = 14, seq1_length = Some 5,
        speed_factor_curve = Some (\<lambda>t. 5 * (t - 10) - 7), frameMap = None\<rparr>"
      5 "\<lambda>t. 5 * (t - 10) - 7"]
  by (simp add: seq_effect_speed_rebuild_map_def speed_map_loop_def CLAMP_def Let_def upt_rec
      eval_nat_numeral)

section \<open>Early-out of the gaussian blur\<close>

lemma early_out_gaussian_blur_zero:
  "size_x data = 0 \<Longrightarrow> size_y data = 0 \<Longrightarrow> early_out_gaussian_blur data fac = EARLY_USE_INPUT_1"
  by (simp add: early_out_gaussian_blur_def)

lemma early_out_gaussian_blur_nonzero:
  "\<not> (size_x data = 0 \<and> size_y data = 0) \<Longrightarrow> early_out_gaussian_blur data fac = EARLY_DO_EFFECT"
  by (simp add: early_out_gaussian_blur_def)

text \<open>
  C8: the early-out of the gaussian blur entry of the handle table is
  \<open>early_out_gaussian_blur\<close>. When both radii \<open>size_x\<close> and \<open>size_y\<close> are zero it answers
  use-input-1, and the compositing call then returns input 1 itself, with the image
  buffers unchanged, no buffer allocated and the effect not executed, whatever the
  effect's \<open>execute\<close> would do. For all other radii it answers run-the-effect, and the
  compositing call is the execution of the effect on the inputs.
\<close>

theorem gaussian_blur_zero_radii_use_input_1:
  "early_out (get_sequence_effect_impl SEQ_TYPE_GAUSSIAN_BLUR) = Early_out_gaussian_blur
   \<and> (size_x data = 0 \<and> size_y data = 0 \<longrightarrow>
        early_out_gaussian_blur data fac = EARLY_USE_INPUT_1
        \<and> compositing_call execute_effect (early_out_gaussian_blur data fac) ibuf1 ibuf2 ibuf3 st
            = (ibuf1, st)
        \<and> buffers (snd (compositing_call execute_effect (early_out_gaussian_blur data fac)
              ibuf1 ibuf2 ibuf3 st)) = buffers st
        \<and> allocations (snd (compositing_call execute_effect (early_out_gaussian_blur data fac)
              ibuf1 ibuf2 ibuf3 st)) = allocations st)
   \<and> (\<not> (size_x data = 0 \<and> size_y data = 0) \<longrightarrow>
        early_out_gaussian_blur data fac = EARLY_DO_EFFECT
        \<and> compositing_call execute_effect (early_out_gaussian_blur data fac) ibuf1 ibuf2 ibuf3 st
            = execute_effect ibuf1 ibuf2 ibuf3 st)"
proof (intro conjI impI)
  show "early_out (get_sequence_effect_impl SEQ_TYPE_GAUSSIAN_BLUR) = Early_out_gaussian_blur"
    by (simp add: handle_defaults_def)
next
  assume z: "size_x data = 0 \<and> size_y data = 0"
  then show c: "early_out_gaussian_blur data fac = EARLY_USE_INPUT_1"
    by (simp add: early_out_gaussian_blur_zero)
  show r: "compositing_call execute_effect (early_out_gaussian_blur data fac) ibuf1 ibuf2 ibuf3 st
             = (ibuf1, st)"
    unfolding c by (simp add: compositing_call_def)
  show "buffers (snd (compositing_call execute_effect (early_out_gaussian_blur data fac)
           ibuf1 ibuf2 ibuf3 st)) = buffers st"
    unfolding r by simp
  show "allocations (snd (compositing_call execute_effect (early_out_gaussian_blur data fac)
           ibuf1 ibuf2 ibuf3 st)) = allocations st"
    unfolding r by simp
next
  assume nz: "\<not> (size_x data = 0 \<and> size_y data = 0)"
  then show c: "early_out_gaussian_blur data fac = EARLY_DO_EFFECT"
    by (rule early_out_gaussian_blur_nonzero)
  show "compositing_call execute_effect (early_out_gaussian_blur data fac) ibuf1 ibuf2 ibuf3 st
          = execute_effect ibuf1 ibuf2 ibuf3 st"
    unfolding c by (simp add: compositing_call_def)
qed

text \<open>
  The witness runs the compositing call with an execution that allocates one output
  buffer, on a state with one buffer: with zero radii the call returns input 1 and the
  count stays at 1, with \<open>size_x = 3\<close> the effect runs and the count becomes 2.
\<close>

theorem gaussian_blur_zero_radii_use_input_1_witness:
  "compositing_call
      (\<lambda>i1 i2 i3 st. (Some (allocations st),
         st\<lparr>buffers := (buffers st)(allocations st := IMB_allocImBuf 2 2 IB_rect),
            allocations := Suc (allocations st)\<rparr>))
      (early_out_gaussian_blur \<lparr>size_x = 0, size_y = 0\<rparr> (1 / 2)) (Some 0) None None
      \<lparr>buffers = (\<lambda>a. IMB_allocImBuf 2 2 IB_rect), allocations = 1\<rparr>
     = (Some 0, \<lparr>buffers = (\<lambda>a. IMB_allocImBuf 2 2 IB_rect), allocations = 1\<rparr>)
   \<and> early_out_gaussian_blur \<lparr>size_x = 3, size_y = 0\<rparr> (1 / 2) = EARLY_DO_EFFECT
   \<and> allocations (snd (compositing_call
      (\<lambda>i1 i2 i3 st. (Some (allocations st),
         st\<lparr>buffers := (buffers st)(allocations st := IMB_allocImBuf 2 2 IB_rect),
            allocations := Suc (allocations st)\<rparr>))
      (early_out_gaussian_blur \<lparr>size_x = 3, size_y = 0\<rparr> (1 / 2)) (Some 0) None None
      \<lparr>buffers = (\<lambda>a. IMB_allocImBuf 2 2 IB_rect), allocations = 1\<rparr>)) = 2"
  using gaussian_blur_zero_radii_use_input_1 [where data = "\<lparr>size_x = 0, size_y = 0\<rparr>"
      and fac = "1 / 2" and ?ibuf1.0 = "Some 0" and ?ibuf2.0 = None and ?ibuf3.0 = None
      and st = "\<lparr>buffers = (\<lambda>a. IMB_allocImBuf 2 2 IB_rect), allocations = 1\<rparr>"
      and execute_effect = "\<lambda>i1 i2 i3 st. (Some (allocations st),
         st\<lparr>buffers := (buffers st)(allocations st := IMB_allocImBuf 2 2 IB_rect),
            allocations := Suc (allocations st)\<rparr>)"]
    gaussian_blur_zero_radii_use_input_1 [where data = "\<lparr>size_x = 3, size_y = 0\<rparr>"
      and fac = "1 / 2" and ?ibuf1.0 = "Some 0" and ?ibuf2.0 = None and ?ibuf3.0 = None
      and st = "\<lparr>buffers = (\<lambda>a. IMB_allocImBuf 2 2 IB_rect), allocations = 1\<rparr>"
      and execute_effect = "\<lambda>i1 i2 i3 st. (Some (allocations st),
         st\<lparr>buffers := (buffers st)(allocations st := IMB_allocImBuf 2 2 IB_rect),
            allocations := Suc (allocations st)\<rparr>)"]
  by (simp add: compositing_call_def early_out_gaussian_blur_def)

section \<open>Number of inputs of an effect type\<close>

text \<open>
  C9: \<open>SEQ_effect_get_num_inputs\<close> is 0 for solid color, multicam, adjustment and text, 1 for
  transform, glow, gaussian blur and speed, and 2 for cross, gamma cross, alpha over,
  alpha under, add, subtract, multiply, wipe, the blend modes, color mix and overdrop;
  these are all effect types of the handle table. The handle is a function of the effect
  type alone.
\<close>

theorem num_inputs_by_effect_type:
  "(\<forall>t \<in> set no_input_effects. SEQ_effect_get_num_inputs t = 0)
   \<and> (\<forall>t \<in> set single_input_effects. SEQ_effect_get_num_inputs t = 1)
   \<and> (\<forall>t \<in> set dual_input_effects. SEQ_effect_get_num_inputs t = 2)
   \<and> (\<forall>t. t \<noteq> SEQ_TYPE_OTHER \<longrightarrow>
          t \<in> set (no_input_effects @ single_input_effects @ dual_input_effects))"
proof (intro conjI allI impI)
  show "\<forall>t \<in> set no_input_effects. SEQ_effect_get_num_inputs t = 0"
    by (simp add: no_input_effects_def SEQ_effect_get_num_inputs_def handle_defaults_def)
  show "\<forall>t \<in> set single_input_effects. SEQ_effect_get_num_inputs t = 1"
    by (simp add: single_input_effects_def SEQ_effect_get_num_inputs_def handle_defaults_def)
  show "\<forall>t \<in> set dual_input_effects. SEQ_effect_get_num_inputs t = 2"
    by (simp add: dual_input_effects_def SEQ_effect_get_num_inputs_def handle_defaults_def)
next
  fix t assume "t \<noteq> SEQ_TYPE_OTHER"
  then show "t \<in> set (no_input_effects @ single_input_effects @ dual_input_effects)"
    by (cases t)
       (simp_all add: no_input_effects_def single_input_effects_def dual_input_effects_def)
qed

theorem num_inputs_by_effect_type_witness:
  "SEQ_effect_get_num_inputs SEQ_TYPE_TEXT = 0
   \<and> SEQ_effect_get_num_inputs SEQ_TYPE_GAUSSIAN_BLUR = 1
   \<and> SEQ_effect_get_num_inputs SEQ_TYPE_OVERDROP = 2
   \<and> SEQ_TYPE_HUE \<in> set (no_input_effects @ single_input_effects @ dual_input_effects)"
  using num_inputs_by_effect_type
  by (simp add: no_input_effects_def single_input_effects_def dual_input_effects_def)

section \<open>Representation of the output buffer\<close>

lemma IMB_allocImBuf_buffers [simp]:
  "float_buffer (IMB_allocImBuf w h IB_rect) = None"
  "float_buffer (IMB_allocImBuf w h IB_rectfloat) = Some (replicate (4 * nat w * nat h) 0)"
  "byte_buffer (IMB_allocImBuf w h IB_rect) = Some (replicate (4 * nat w * nat h) 0)"
  "byte_buffer (IMB_allocImBuf w h IB_rectfloat) = None"
  by (simp_all add: IMB_allocImBuf_def)

lemma has_float_None [simp]: "\<not> has_float st None"
  by (simp add: has_float_def)

text \<open>
  C10: the buffer returned by \<open>prepare_effect_imbufs\<close> has a float buffer exactly when one
  of the three inputs is non-null and carries a float buffer, and a byte buffer exactly
  when none does (in particular when all inputs are null).
\<close>

theorem output_float_iff_input_float:
  "(float_buffer (fst (prepare_effect_imbufs to_float to_byte context st ibuf1 ibuf2 ibuf3)) \<noteq> None)
     = (has_float st ibuf1 \<or> has_float st ibuf2 \<or> has_float st ibuf3)
   \<and> (byte_buffer (fst (prepare_effect_imbufs to_float to_byte context st ibuf1 ibuf2 ibuf3)) \<noteq> None)
     = (\<not> (has_float st ibuf1 \<or> has_float st ibuf2 \<or> has_float st ibuf3))"
  by (simp add: prepare_effect_imbufs_def Let_def split: option.splits)

end
